theory Spec2Isabelle
  imports Main "HOL-Library.Multiset"
begin

section \<open>Values, dictionaries and errors\<close>

text \<open>
  The handlers of \<^verbatim>\<open>backend/app.py\<close> read JSON request bodies and build
  dictionaries for responses and Socket.IO payloads. A JSON scalar is a \<open>val\<close>;
  fractional numbers are left out. A dictionary is an association list, read with
  \<open>map_of\<close> (first binding wins), so that the keys of a payload keep the order in which
  the source writes them.
\<close>

datatype val = VNull | VInt int | VStr string | VBool bool

type_synonym dict = "(string \<times> val) list"

datatype error = KeyError string | ValueError | TypeError | StorageError

text \<open>Python's truth value of a JSON scalar, as \<^verbatim>\<open>not x\<close> tests it.\<close>

fun truthy :: "val \<Rightarrow> bool" where
  "truthy VNull = False"
| "truthy (VInt n) = (n \<noteq> 0)"
| "truthy (VStr s) = (s \<noteq> [])"
| "truthy (VBool b) = b"

text \<open>\<^verbatim>\<open>data.get(k)\<close>, \<^verbatim>\<open>data.get(k, d)\<close>, \<^verbatim>\<open>data[k]\<close> and \<^verbatim>\<open>k in data\<close>.\<close>

definition dict_get :: "dict \<Rightarrow> string \<Rightarrow> val" where
  "dict_get d k = (case map_of d k of None \<Rightarrow> VNull | Some v \<Rightarrow> v)"

definition dict_get_default :: "dict \<Rightarrow> string \<Rightarrow> val \<Rightarrow> val" where
  "dict_get_default d k dflt = (case map_of d k of None \<Rightarrow> dflt | Some v \<Rightarrow> v)"

definition getitem :: "dict \<Rightarrow> string \<Rightarrow> error + val" where
  "getitem d k = (case map_of d k of None \<Rightarrow> Inl (KeyError k) | Some v \<Rightarrow> Inr v)"

definition has_key :: "dict \<Rightarrow> string \<Rightarrow> bool" where
  "has_key d k = (map_of d k \<noteq> None)"

text \<open>Sequencing of steps that may raise: the first error ends the computation.\<close>

fun bindE :: "error + 'a \<Rightarrow> ('a \<Rightarrow> error + 'b) \<Rightarrow> error + 'b" where
  "bindE (Inl e) f = Inl e"
| "bindE (Inr x) f = f x"

text \<open>Decimal text of an integer, and Python's \<^verbatim>\<open>str\<close> as f-strings apply it.\<close>

definition digit :: "nat \<Rightarrow> char" where
  "digit n = ''0123456789'' ! (n mod 10)"

fun str_nat :: "nat \<Rightarrow> string" where
  "str_nat n = (if n < 10 then [digit n] else str_nat (n div 10) @ [digit n])"

declare str_nat.simps [simp del]

definition str_int :: "int \<Rightarrow> string" where
  "str_int i = (if i < 0 then CHR ''-'' # str_nat (nat (- i)) else str_nat (nat i))"

fun py_str :: "val \<Rightarrow> string" where
  "py_str VNull = ''None''"
| "py_str (VInt n) = str_int n"
| "py_str (VStr s) = s"
| "py_str (VBool b) = (if b then ''True'' else ''False'')"

text \<open>\<^verbatim>\<open>str.upper\<close> on one character; only the ASCII letters are mapped.\<close>

definition upper_char :: "char \<Rightarrow> char" where
  "upper_char c =
     (let n = (of_char c :: nat) in if 97 \<le> n \<and> n \<le> 122 then char_of (n - 32) else c)"

section \<open>The environment of a request\<close>

text \<open>
  What a handler takes from outside the source file: the clock (\<^verbatim>\<open>datetime.utcnow\<close>,
  microseconds since the epoch), whether the storage layer accepts the commit, and the
  library's conversions between dates and text (\<^verbatim>\<open>datetime.fromisoformat\<close>,
  \<^verbatim>\<open>isoformat\<close>, \<^verbatim>\<open>str\<close> of a stored Numeric). Dates are days since the
  epoch, times of day are microseconds since midnight.
\<close>

record env =
  now :: int
  commit_ok :: bool
  fromisoformat :: "string \<Rightarrow> int option"
  iso_datetime :: "int \<Rightarrow> string"
  iso_date :: "int \<Rightarrow> string"
  iso_time :: "int \<Rightarrow> string"
  str_numeric :: "val \<Rightarrow> string"

definition day_us :: int where
  "day_us = 86400000000"

definition date_of :: "int \<Rightarrow> int" where
  "date_of t = t div day_us"

definition time_of :: "int \<Rightarrow> int" where
  "time_of t = t mod day_us"

text \<open>
  \<^verbatim>\<open>datetime.fromisoformat(v)\<close>: TypeError unless \<open>v\<close> is a string, ValueError when
  the string is not ISO-8601.
\<close>

definition parse_iso :: "env \<Rightarrow> val \<Rightarrow> error + int" where
  "parse_iso e v =
     (case v of
        VStr s \<Rightarrow> (case fromisoformat e s of None \<Rightarrow> Inl ValueError | Some t \<Rightarrow> Inr t)
      | _ \<Rightarrow> Inl TypeError)"

section \<open>The tables\<close>

text \<open>
  One record per model class of \<^verbatim>\<open>_setup_models\<close>, with the columns the handlers
  below read or write; a table is the list of its rows in insertion order. A column that
  a handler fills straight from the request holds the \<open>val\<close> that was written (what a
  particular backend would coerce is not modelled); primary keys, parsed dates and the
  columns of \<^verbatim>\<open>Users\<close>, which no handler below writes, are typed.
\<close>

record user_row =
  u_user_id :: int
  u_name :: string
  u_avatar :: "string option"

record announcement_row =
  ann_announcement_id :: int
  ann_title :: val
  ann_content :: val
  ann_published_date :: int
  ann_author_id :: val
  ann_tag :: val
  ann_tag_color :: val
  ann_tag_bg :: val

record repair_row =
  rr_request_id :: int
  rr_user_id :: val
  rr_title :: val
  rr_category :: val
  rr_description :: val
  rr_submitted_date :: int
  rr_status :: val
  rr_image_paths :: val

record booking_row =
  bk_booking_id :: int
  bk_user_id :: val
  bk_location :: val
  bk_date :: int
  bk_start_time :: int
  bk_end_time :: int
  bk_purpose :: val
  bk_attendee_count :: val
  bk_status :: val

record bill_row =
  bill_bill_id :: int
  bill_item_name :: val
  bill_amount :: val
  bill_due_date :: int
  bill_recipient_id :: val
  bill_issued_by_user_id :: val
  bill_status :: val

record payment_row =
  pay_payment_id :: int
  pay_user_id :: val
  pay_bill_id :: val
  pay_amount :: val
  pay_payment_method :: val
  pay_payment_date :: int
  pay_status :: val
  pay_slip_path :: val

record calendar_row =
  cal_event_id :: int
  cal_event_name :: val
  cal_event_date :: int
  cal_location :: val
  cal_description :: val

record document_row =
  doc_document_id :: int
  doc_document_name :: val
  doc_file_path :: val
  doc_uploaded_by_user_id :: val
  doc_upload_date :: int
  doc_category :: val

record chat_row =
  msg_message_id :: int
  msg_sender_id :: val
  msg_receiver_id :: val
  msg_content :: val
  msg_timestamp :: int
  msg_room_name :: val

record visitor_row =
  vis_visitor_id :: int
  vis_user_id :: val
  vis_name :: val
  vis_phone :: val
  vis_visit_date :: int
  vis_visit_time :: int
  vis_purpose :: val

record incident_row =
  inc_incident_id :: int
  inc_user_id :: val
  inc_description :: val
  inc_reported_date :: int
  inc_evidence_paths :: val

record vote_row =
  vr_result_id :: int
  vr_poll_id :: val
  vr_option_id :: val
  vr_user_id :: val

record db =
  users :: "user_row list"
  announcements :: "announcement_row list"
  repair_requests :: "repair_row list"
  booking_requests :: "booking_row list"
  bills :: "bill_row list"
  payments :: "payment_row list"
  calendar_events :: "calendar_row list"
  documents :: "document_row list"
  chat_messages :: "chat_row list"
  security_visitors :: "visitor_row list"
  security_incidents :: "incident_row list"
  voting_results :: "vote_row list"

text \<open>The primary key the storage gives a new row: one more than the largest in use.\<close>

definition next_id :: "int list \<Rightarrow> int" where
  "next_id ids = fold max ids 0 + 1"

text \<open>
  A relationship to \<^verbatim>\<open>Users\<close> (\<^verbatim>\<open>row.user\<close>, \<^verbatim>\<open>row.author\<close>,
  \<^verbatim>\<open>Users.query.get\<close>): the user whose key is the integer in the foreign-key column,
  if there is one.
\<close>

definition lookup_user :: "db \<Rightarrow> val \<Rightarrow> user_row option" where
  "lookup_user d v = find (\<lambda>u. VInt (u_user_id u) = v) (users d)"

section \<open>Emitted events\<close>

text \<open>
  An emission is what one call of \<^verbatim>\<open>emit\<close> hands to Socket.IO.
  \<^verbatim>\<open>socketio.emit(..., broadcast=True)\<close> has the target \<open>Broadcast\<close>,
  \<^verbatim>\<open>socketio.emit(..., room=r)\<close> the target \<open>Room r\<close>, and the context-bound
  \<^verbatim>\<open>emit(...)\<close> inside an event handler, which answers the calling session, the target
  \<open>Originator\<close>.
\<close>

datatype target = Broadcast | Room val | Originator

record emission =
  ev_name :: string
  ev_payload :: dict
  ev_target :: target

definition opt_str :: "string option \<Rightarrow> val" where
  "opt_str s = (case s of None \<Rightarrow> VNull | Some x \<Rightarrow> VStr x)"

section \<open>Chat: sending and history\<close>

text \<open>
  The sender's display name and avatar, as both \<^verbatim>\<open>handle_send_message\<close> and
  \<^verbatim>\<open>get_chat_messages\<close> compute them from the resolved user.
\<close>

definition sender_name_of :: "user_row option \<Rightarrow> string" where
  "sender_name_of sender_user =
     (case sender_user of Some u \<Rightarrow> u_name u | None \<Rightarrow> ''Unknown User'')"

definition sender_avatar_of :: "user_row option \<Rightarrow> val" where
  "sender_avatar_of sender_user =
     (case sender_user of
        Some u \<Rightarrow> opt_str (u_avatar u)
      | None \<Rightarrow>
          (case sender_name_of sender_user of
             c # _ \<Rightarrow> VStr [upper_char c]
           | [] \<Rightarrow> VStr ''?''))"

definition message_payload :: "env \<Rightarrow> chat_row \<Rightarrow> user_row option \<Rightarrow> dict" where
  "message_payload e msg sender_user =
     [(''message_id'', VInt (msg_message_id msg)),
      (''sender_id'', msg_sender_id msg),
      (''sender_name'', VStr (sender_name_of sender_user)),
      (''sender_avatar'', sender_avatar_of sender_user),
      (''content'', msg_content msg),
      (''timestamp'', VStr (iso_datetime e (msg_timestamp msg))),
      (''room_name'', msg_room_name msg)]"

definition error_event :: "string \<Rightarrow> emission" where
  "error_event m =
     \<lparr>ev_name = ''error'', ev_payload = [(''message'', VStr m)], ev_target = Originator\<rparr>"

text \<open>
  The row \<^verbatim>\<open>ChatMessages(sender_id=..., content=..., room_name=...)\<close> as the insert
  writes it: the timestamp is the column default \<^verbatim>\<open>datetime.utcnow\<close>, and a
  \<open>room_name\<close> of None takes the column default \<^verbatim>\<open>'general'\<close>.
\<close>

definition new_chat_row :: "env \<Rightarrow> db \<Rightarrow> val \<Rightarrow> val \<Rightarrow> val \<Rightarrow> chat_row" where
  "new_chat_row e d sender_id content room_name =
     \<lparr>msg_message_id = next_id (map msg_message_id (chat_messages d)),
      msg_sender_id = sender_id,
      msg_receiver_id = VNull,
      msg_content = content,
      msg_timestamp = now e,
      msg_room_name = (if room_name = VNull then VStr ''general'' else room_name)\<rparr>"

text \<open>
  \<^verbatim>\<open>handle_send_message(data)\<close>. The commit raises when the storage refuses it or
  the NOT NULL column \<open>content\<close> would be null; the \<^verbatim>\<open>except\<close> branch rolls
  back, which leaves the tables as they were. The result is the new state and the
  emissions in order.
\<close>

definition handle_send_message :: "env \<Rightarrow> dict \<Rightarrow> db \<Rightarrow> db \<times> emission list" where
  "handle_send_message e data d =
     (let sender_id = dict_get data ''sender_id'';
          content = dict_get data ''content'';
          room_name = dict_get_default data ''room_name'' (VStr ''general_chat'')
      in if \<not> truthy sender_id \<or> \<not> truthy content
         then (d, [error_event ''Missing sender_id or content''])
         else
           (let new_message = new_chat_row e d sender_id content room_name
            in if commit_ok e \<and> content \<noteq> VNull
               then
                 (let d' = d\<lparr>chat_messages := chat_messages d @ [new_message]\<rparr>;
                      sender_user = lookup_user d' sender_id
                  in (d', [\<lparr>ev_name = ''receive_message'',
                            ev_payload = message_payload e new_message sender_user,
                            ev_target = Room room_name\<rparr>]))
               else (d, [error_event ''Failed to send message''])))"

text \<open>
  \<^verbatim>\<open>get_chat_messages()\<close>: the rows ordered by \<open>timestamp\<close> ascending (rows of
  equal timestamp stay in insertion order), each with its sender resolved through the
  relationship \<^verbatim>\<open>msg.sender\<close>.
\<close>

definition ordered_messages :: "db \<Rightarrow> chat_row list" where
  "ordered_messages d = sort_key msg_timestamp (chat_messages d)"

definition get_chat_messages :: "env \<Rightarrow> db \<Rightarrow> dict list" where
  "get_chat_messages e d =
     map (\<lambda>msg. message_payload e msg (lookup_user d (msg_sender_id msg))) (ordered_messages d)"

section \<open>HTTP requests and results\<close>

text \<open>
  Flask's \<^verbatim>\<open>request\<close> as a view reads it: the method, the JSON body and the query
  arguments. A view answers with a status and a JSON body, or raises (Flask then answers
  500); an event handler just returns. Every handler yields its outcome, the tables after
  it and the emissions it made, in order. A view that raises leaves the tables as the last
  commit left them: its session is discarded with the request.
\<close>

record request =
  req_method :: string
  req_json :: dict
  req_args :: dict

datatype body = JObj dict | JArr "dict list"

datatype outcome = Response nat body | Raised error | Returned

type_synonym result = "outcome \<times> db \<times> emission list"

definition message_response :: "nat \<Rightarrow> string \<Rightarrow> dict \<Rightarrow> outcome" where
  "message_response code m extra = Response code (JObj ((''message'', VStr m) # extra))"

text \<open>\<^verbatim>\<open>get_or_404\<close> aborts with status 404 when no row has the key.\<close>

definition not_found :: outcome where
  "not_found = Response 404 (JObj [])"

text \<open>
  A name resolved through a relationship to \<^verbatim>\<open>Users\<close>:
  \<^verbatim>\<open>row.user.name if row.user else placeholder\<close>.
\<close>

definition display_name :: "user_row option \<Rightarrow> string \<Rightarrow> val" where
  "display_name u placeholder = (case u of Some x \<Rightarrow> VStr (u_name x) | None \<Rightarrow> VStr placeholder)"

section \<open>Announcements\<close>

text \<open>The three tags of \<^verbatim>\<open>tag_colors\<close>, as the UTF-8 bytes of their Thai text.\<close>

definition tag_important :: string where
  "tag_important = [CHR 0xE0, CHR 0xB8, CHR 0xAA, CHR 0xE0, CHR 0xB8, CHR 0xB3, CHR 0xE0, CHR 0xB8,
     CHR 0x84, CHR 0xE0, CHR 0xB8, CHR 0xB1, CHR 0xE0, CHR 0xB8, CHR 0x8D]"

definition tag_activity :: string where
  "tag_activity = [CHR 0xE0, CHR 0xB8, CHR 0x81, CHR 0xE0, CHR 0xB8, CHR 0xB4, CHR 0xE0, CHR 0xB8,
     CHR 0x88, CHR 0xE0, CHR 0xB8, CHR 0x81, CHR 0xE0, CHR 0xB8, CHR 0xA3, CHR 0xE0, CHR 0xB8,
     CHR 0xA3, CHR 0xE0, CHR 0xB8, CHR 0xA1]"

definition tag_alert :: string where
  "tag_alert = [CHR 0xE0, CHR 0xB9, CHR 0x81, CHR 0xE0, CHR 0xB8, CHR 0x88, CHR 0xE0, CHR 0xB9,
     CHR 0x89, CHR 0xE0, CHR 0xB8, CHR 0x87, CHR 0xE0, CHR 0xB9, CHR 0x80, CHR 0xE0, CHR 0xB8,
     CHR 0x95, CHR 0xE0, CHR 0xB8, CHR 0xB7, CHR 0xE0, CHR 0xB8, CHR 0xAD, CHR 0xE0, CHR 0xB8,
     CHR 0x99]"

text \<open>\<^verbatim>\<open>tag_colors.get(tag, {'color': '#666', 'bg': '#eee'})\<close>: colour and background.\<close>

definition tag_info :: "val \<Rightarrow> string \<times> string" where
  "tag_info tag =
     (if tag = VStr tag_important then (''#1976d2'', ''#e3f2fd'')
      else if tag = VStr tag_activity then (''#2e7d32'', ''#e8f5e8'')
      else if tag = VStr tag_alert then (''#856404'', ''#fff3cd'')
      else (''#666'', ''#eee''))"

text \<open>
  The dictionary of one announcement; the \<^verbatim>\<open>new_announcement\<close> and
  \<^verbatim>\<open>announcement_updated\<close> payloads and the rows of the GET list have the same keys.
\<close>

definition announcement_dict :: "env \<Rightarrow> db \<Rightarrow> announcement_row \<Rightarrow> dict" where
  "announcement_dict e d ann =
     [(''announcement_id'', VInt (ann_announcement_id ann)),
      (''title'', ann_title ann),
      (''content'', ann_content ann),
      (''published_date'', VStr (iso_datetime e (ann_published_date ann))),
      (''author_id'', ann_author_id ann),
      (''author_name'', display_name (lookup_user d (ann_author_id ann)) ''Unknown Author''),
      (''tag'', ann_tag ann),
      (''tag_color'', ann_tag_color ann),
      (''tag_bg'', ann_tag_bg ann)]"

definition manage_announcements_POST :: "env \<Rightarrow> request \<Rightarrow> db \<Rightarrow> result" where
  "manage_announcements_POST e req d =
     (let data = req_json req;
          info = tag_info (dict_get data ''tag'')
      in case bindE (getitem data ''title'') (\<lambda>title.
              bindE (getitem data ''content'') (\<lambda>content.
              bindE (if has_key data ''published_date''
                     then parse_iso e (dict_get data ''published_date'')
                     else Inr (now e)) (\<lambda>published_date.
              Inr (title, content, published_date)))) of
           Inl err \<Rightarrow> (Raised err, d, [])
         | Inr (title, content, published_date) \<Rightarrow>
             (let new_announcement =
                    \<lparr>ann_announcement_id = next_id (map ann_announcement_id (announcements d)),
                     ann_title = title,
                     ann_content = content,
                     ann_published_date = published_date,
                     ann_author_id = dict_get data ''author_id'',
                     ann_tag = dict_get data ''tag'',
                     ann_tag_color = VStr (fst info),
                     ann_tag_bg = VStr (snd info)\<rparr>
              in if commit_ok e \<and> title \<noteq> VNull \<and> content \<noteq> VNull
                 then
                   (let d' = d\<lparr>announcements := announcements d @ [new_announcement]\<rparr>
                    in (message_response 201 ''Announcement created successfully''
                          [(''announcement_id'', VInt (ann_announcement_id new_announcement))],
                        d',
                        [\<lparr>ev_name = ''new_announcement'',
                          ev_payload = announcement_dict e d' new_announcement,
                          ev_target = Broadcast\<rparr>]))
                 else (Raised StorageError, d, [])))"

text \<open>The GET list is ordered by \<open>published_date\<close> descending.\<close>

definition manage_announcements_GET :: "env \<Rightarrow> request \<Rightarrow> db \<Rightarrow> result" where
  "manage_announcements_GET e req d =
     (Response 200
        (JArr (map (announcement_dict e d)
                 (sort_key (\<lambda>a. - ann_published_date a) (announcements d)))),
      d, [])"

definition manage_announcements :: "env \<Rightarrow> request \<Rightarrow> db \<Rightarrow> result" where
  "manage_announcements e req d =
     (if req_method req = ''POST'' then manage_announcements_POST e req d
      else if req_method req = ''GET'' then manage_announcements_GET e req d
      else (Raised TypeError, d, []))"

definition handle_single_announcement :: "env \<Rightarrow> int \<Rightarrow> request \<Rightarrow> db \<Rightarrow> result" where
  "handle_single_announcement e announcement_id req d =
     (case find (\<lambda>a. ann_announcement_id a = announcement_id) (announcements d) of
        None \<Rightarrow> (not_found, d, [])
      | Some announcement \<Rightarrow>
          if req_method req = ''PUT'' then
            (let data = req_json req;
                 title = dict_get_default data ''title'' (ann_title announcement);
                 content = dict_get_default data ''content'' (ann_content announcement)
             in case (if has_key data ''published_date''
                      then parse_iso e (dict_get data ''published_date'')
                      else Inr (ann_published_date announcement)) of
                  Inl err \<Rightarrow> (Raised err, d, [])
                | Inr published_date \<Rightarrow>
                    (let tag = dict_get_default data ''tag'' (ann_tag announcement);
                         info = tag_info tag;
                         updated = announcement
                           \<lparr>ann_title := title,
                            ann_content := content,
                            ann_published_date := published_date,
                            ann_author_id :=
                              dict_get_default data ''author_id'' (ann_author_id announcement),
                            ann_tag := tag,
                            ann_tag_color := VStr (fst info),
                            ann_tag_bg := VStr (snd info)\<rparr>
                     in if commit_ok e \<and> title \<noteq> VNull \<and> content \<noteq> VNull
                        then
                          (let d' = d\<lparr>announcements :=
                                 map (\<lambda>a. if ann_announcement_id a = announcement_id
                                           then updated else a) (announcements d)\<rparr>
                           in (message_response 200 ''Announcement updated successfully'' [],
                               d',
                               [\<lparr>ev_name = ''announcement_updated'',
                                 ev_payload = announcement_dict e d' updated,
                                 ev_target = Broadcast\<rparr>]))
                        else (Raised StorageError, d, [])))
          else if req_method req = ''DELETE'' then
            (if commit_ok e
             then (message_response 204 ''Announcement deleted successfully'' [],
                   d\<lparr>announcements :=
                       filter (\<lambda>a. ann_announcement_id a \<noteq> announcement_id) (announcements d)\<rparr>,
                   [\<lparr>ev_name = ''announcement_deleted'',
                     ev_payload = [(''announcement_id'', VInt announcement_id)],
                     ev_target = Broadcast\<rparr>])
             else (Raised StorageError, d, []))
          else (Raised TypeError, d, []))"

section \<open>Repair requests\<close>

definition manage_repair_requests_POST :: "env \<Rightarrow> request \<Rightarrow> db \<Rightarrow> result" where
  "manage_repair_requests_POST e req d =
     (let data = req_json req
      in case bindE (getitem data ''user_id'') (\<lambda>user_id.
              bindE (getitem data ''title'') (\<lambda>title.
              bindE (getitem data ''category'') (\<lambda>category.
              bindE (getitem data ''description'') (\<lambda>description.
              Inr (user_id, title, category, description))))) of
           Inl err \<Rightarrow> (Raised err, d, [])
         | Inr (user_id, title, category, description) \<Rightarrow>
             (let new_request =
                    \<lparr>rr_request_id = next_id (map rr_request_id (repair_requests d)),
                     rr_user_id = user_id,
                     rr_title = title,
                     rr_category = category,
                     rr_description = description,
                     rr_submitted_date = now e,
                     rr_status = VStr ''pending'',
                     rr_image_paths = dict_get data ''image_paths''\<rparr>
              in if commit_ok e \<and> title \<noteq> VNull \<and> description \<noteq> VNull
                 then
                   (let d' = d\<lparr>repair_requests := repair_requests d @ [new_request]\<rparr>
                    in (message_response 201 ''Repair request submitted successfully''
                          [(''request_id'', VInt (rr_request_id new_request))],
                        d',
                        [\<lparr>ev_name = ''new_repair_request'',
                          ev_payload =
                            [(''request_id'', VInt (rr_request_id new_request)),
                             (''user_id'', rr_user_id new_request),
                             (''user_name'',
                                display_name (lookup_user d' (rr_user_id new_request))
                                  ''Unknown User''),
                             (''title'', rr_title new_request),
                             (''status'', rr_status new_request),
                             (''submitted_date'',
                                VStr (iso_datetime e (rr_submitted_date new_request)))],
                          ev_target = Room (VStr ''admins'')\<rparr>]))
                 else (Raised StorageError, d, [])))"

definition repair_dict :: "env \<Rightarrow> db \<Rightarrow> repair_row \<Rightarrow> dict" where
  "repair_dict e d r =
     [(''request_id'', VInt (rr_request_id r)),
      (''user_id'', rr_user_id r),
      (''user_name'', display_name (lookup_user d (rr_user_id r)) ''Unknown User''),
      (''title'', rr_title r),
      (''category'', rr_category r),
      (''description'', rr_description r),
      (''status'', rr_status r),
      (''submitted_date'', VStr (iso_datetime e (rr_submitted_date r))),
      (''image_paths'', rr_image_paths r)]"

definition manage_repair_requests_GET :: "env \<Rightarrow> request \<Rightarrow> db \<Rightarrow> result" where
  "manage_repair_requests_GET e req d =
     (Response 200 (JArr (map (repair_dict e d) (repair_requests d))), d, [])"

definition manage_repair_requests :: "env \<Rightarrow> request \<Rightarrow> db \<Rightarrow> result" where
  "manage_repair_requests e req d =
     (if req_method req = ''POST'' then manage_repair_requests_POST e req d
      else if req_method req = ''GET'' then manage_repair_requests_GET e req d
      else (Raised TypeError, d, []))"

definition handle_single_repair_request :: "env \<Rightarrow> int \<Rightarrow> request \<Rightarrow> db \<Rightarrow> result" where
  "handle_single_repair_request e request_id req d =
     (case find (\<lambda>r. rr_request_id r = request_id) (repair_requests d) of
        None \<Rightarrow> (not_found, d, [])
      | Some r \<Rightarrow>
          if req_method req = ''PUT'' then
            (let data = req_json req;
                 updated = r
                   \<lparr>rr_title := dict_get_default data ''title'' (rr_title r),
                    rr_category := dict_get_default data ''category'' (rr_category r),
                    rr_description := dict_get_default data ''description'' (rr_description r),
                    rr_status := dict_get_default data ''status'' (rr_status r),
                    rr_image_paths := dict_get_default data ''image_paths'' (rr_image_paths r)\<rparr>
             in if commit_ok e \<and> rr_title updated \<noteq> VNull \<and> rr_description updated \<noteq> VNull
                then (message_response 200 ''Repair request updated successfully'' [],
                      d\<lparr>repair_requests :=
                          map (\<lambda>x. if rr_request_id x = request_id then updated else x)
                            (repair_requests d)\<rparr>,
                      [\<lparr>ev_name = ''repair_status_updated'',
                        ev_payload =
                          [(''request_id'', VInt (rr_request_id updated)),
                           (''user_id'', rr_user_id updated),
                           (''status'', rr_status updated),
                           (''title'', rr_title updated)],
                        ev_target = Room (VStr (''user_'' @ py_str (rr_user_id updated)))\<rparr>])
                else (Raised StorageError, d, []))
          else if req_method req = ''DELETE'' then
            (if commit_ok e
             then (message_response 204 ''Repair request deleted successfully'' [],
                   d\<lparr>repair_requests :=
                       filter (\<lambda>x. rr_request_id x \<noteq> request_id) (repair_requests d)\<rparr>,
                   [])
             else (Raised StorageError, d, []))
          else (Raised TypeError, d, []))"

section \<open>Booking requests\<close>

text \<open>\<^verbatim>\<open>datetime.fromisoformat(data[k])\<close>: the key must be there and hold ISO text.\<close>

definition get_iso :: "env \<Rightarrow> dict \<Rightarrow> string \<Rightarrow> error + int" where
  "get_iso e data k = bindE (getitem data k) (parse_iso e)"

text \<open>\<^verbatim>\<open>datetime.fromisoformat(data[k]) if k in data else old\<close>, before any projection.\<close>

definition get_iso_or :: "env \<Rightarrow> dict \<Rightarrow> string \<Rightarrow> (int \<Rightarrow> int) \<Rightarrow> int \<Rightarrow> error + int" where
  "get_iso_or e data k proj old =
     (if has_key data k
      then bindE (parse_iso e (dict_get data k)) (\<lambda>t. Inr (proj t))
      else Inr old)"

definition manage_booking_requests_POST :: "env \<Rightarrow> request \<Rightarrow> db \<Rightarrow> result" where
  "manage_booking_requests_POST e req d =
     (let data = req_json req
      in case bindE (getitem data ''user_id'') (\<lambda>user_id.
              bindE (getitem data ''location'') (\<lambda>location.
              bindE (get_iso e data ''date'') (\<lambda>dt.
              bindE (get_iso e data ''start_time'') (\<lambda>st.
              bindE (get_iso e data ''end_time'') (\<lambda>et.
              Inr (user_id, location, date_of dt, time_of st, time_of et)))))) of
           Inl err \<Rightarrow> (Raised err, d, [])
         | Inr (user_id, location, date, start_time, end_time) \<Rightarrow>
             (let new_booking =
                    \<lparr>bk_booking_id = next_id (map bk_booking_id (booking_requests d)),
                     bk_user_id = user_id,
                     bk_location = location,
                     bk_date = date,
                     bk_start_time = start_time,
                     bk_end_time = end_time,
                     bk_purpose = dict_get data ''purpose'',
                     bk_attendee_count = dict_get data ''attendee_count'',
                     bk_status = VStr ''pending''\<rparr>
              in if commit_ok e \<and> location \<noteq> VNull
                 then
                   (let d' = d\<lparr>booking_requests := booking_requests d @ [new_booking]\<rparr>
                    in (message_response 201 ''Booking request submitted successfully''
                          [(''booking_id'', VInt (bk_booking_id new_booking))],
                        d',
                        [\<lparr>ev_name = ''new_booking_request'',
                          ev_payload =
                            [(''booking_id'', VInt (bk_booking_id new_booking)),
                             (''user_id'', bk_user_id new_booking),
                             (''user_name'',
                                display_name (lookup_user d' (bk_user_id new_booking))
                                  ''Unknown User''),
                             (''location'', bk_location new_booking),
                             (''status'', bk_status new_booking)],
                          ev_target = Room (VStr ''admins'')\<rparr>]))
                 else (Raised StorageError, d, [])))"

definition booking_dict :: "env \<Rightarrow> db \<Rightarrow> booking_row \<Rightarrow> dict" where
  "booking_dict e d b =
     [(''booking_id'', VInt (bk_booking_id b)),
      (''user_id'', bk_user_id b),
      (''user_name'', display_name (lookup_user d (bk_user_id b)) ''Unknown User''),
      (''location'', bk_location b),
      (''date'', VStr (iso_date e (bk_date b))),
      (''start_time'', VStr (iso_time e (bk_start_time b))),
      (''end_time'', VStr (iso_time e (bk_end_time b))),
      (''purpose'', bk_purpose b),
      (''attendee_count'', bk_attendee_count b),
      (''status'', bk_status b)]"

definition manage_booking_requests_GET :: "env \<Rightarrow> request \<Rightarrow> db \<Rightarrow> result" where
  "manage_booking_requests_GET e req d =
     (Response 200 (JArr (map (booking_dict e d) (booking_requests d))), d, [])"

definition manage_booking_requests :: "env \<Rightarrow> request \<Rightarrow> db \<Rightarrow> result" where
  "manage_booking_requests e req d =
     (if req_method req = ''POST'' then manage_booking_requests_POST e req d
      else if req_method req = ''GET'' then manage_booking_requests_GET e req d
      else (Raised TypeError, d, []))"

definition handle_single_booking_request :: "env \<Rightarrow> int \<Rightarrow> request \<Rightarrow> db \<Rightarrow> result" where
  "handle_single_booking_request e booking_id req d =
     (case find (\<lambda>b. bk_booking_id b = booking_id) (booking_requests d) of
        None \<Rightarrow> (not_found, d, [])
      | Some booking \<Rightarrow>
          if req_method req = ''PUT'' then
            (let data = req_json req
             in case bindE (get_iso_or e data ''date'' date_of (bk_date booking)) (\<lambda>date.
                     bindE (get_iso_or e data ''start_time'' time_of (bk_start_time booking))
                       (\<lambda>start_time.
                     bindE (get_iso_or e data ''end_time'' time_of (bk_end_time booking))
                       (\<lambda>end_time.
                     Inr (date, start_time, end_time)))) of
                  Inl err \<Rightarrow> (Raised err, d, [])
                | Inr (date, start_time, end_time) \<Rightarrow>
                    (let updated = booking
                           \<lparr>bk_location := dict_get_default data ''location'' (bk_location booking),
                            bk_date := date,
                            bk_start_time := start_time,
                            bk_end_time := end_time,
                            bk_purpose := dict_get_default data ''purpose'' (bk_purpose booking),
                            bk_attendee_count :=
                              dict_get_default data ''attendee_count'' (bk_attendee_count booking),
                            bk_status := dict_get_default data ''status'' (bk_status booking)\<rparr>
                     in if commit_ok e \<and> bk_location updated \<noteq> VNull
                        then (message_response 200 ''Booking request updated successfully'' [],
                              d\<lparr>booking_requests :=
                                  map (\<lambda>x. if bk_booking_id x = booking_id then updated else x)
                                    (booking_requests d)\<rparr>,
                              [\<lparr>ev_name = ''booking_status_updated'',
                                ev_payload =
                                  [(''booking_id'', VInt (bk_booking_id updated)),
                                   (''user_id'', bk_user_id updated),
                                   (''status'', bk_status updated),
                                   (''location'', bk_location updated)],
                                ev_target =
                                  Room (VStr (''user_'' @ py_str (bk_user_id updated)))\<rparr>])
                        else (Raised StorageError, d, [])))
          else if req_method req = ''DELETE'' then
            (if commit_ok e
             then (message_response 204 ''Booking request deleted successfully'' [],
                   d\<lparr>booking_requests :=
                       filter (\<lambda>x. bk_booking_id x \<noteq> booking_id) (booking_requests d)\<rparr>,
                   [])
             else (Raised StorageError, d, []))
          else (Raised TypeError, d, []))"

section \<open>Bills\<close>

definition manage_bills_POST :: "env \<Rightarrow> request \<Rightarrow> db \<Rightarrow> result" where
  "manage_bills_POST e req d =
     (let data = req_json req
      in case bindE (getitem data ''item_name'') (\<lambda>item_name.
              bindE (getitem data ''amount'') (\<lambda>amount.
              bindE (get_iso e data ''due_date'') (\<lambda>due.
              bindE (getitem data ''issued_by_user_id'') (\<lambda>issued_by_user_id.
              Inr (item_name, amount, date_of due, issued_by_user_id))))) of
           Inl err \<Rightarrow> (Raised err, d, [])
         | Inr (item_name, amount, due_date, issued_by_user_id) \<Rightarrow>
             (let new_bill =
                    \<lparr>bill_bill_id = next_id (map bill_bill_id (bills d)),
                     bill_item_name = item_name,
                     bill_amount = amount,
                     bill_due_date = due_date,
                     bill_recipient_id = dict_get_default data ''recipient_id'' (VStr ''all''),
                     bill_issued_by_user_id = issued_by_user_id,
                     bill_status = VStr ''unpaid''\<rparr>
              in if commit_ok e \<and> item_name \<noteq> VNull \<and> amount \<noteq> VNull
                      \<and> bill_recipient_id new_bill \<noteq> VNull
                 then
                   (message_response 201 ''Bill created successfully''
                      [(''bill_id'', VInt (bill_bill_id new_bill))],
                    d\<lparr>bills := bills d @ [new_bill]\<rparr>,
                    [\<lparr>ev_name = ''new_bill_created'',
                      ev_payload =
                        [(''bill_id'', VInt (bill_bill_id new_bill)),
                         (''item_name'', bill_item_name new_bill),
                         (''amount'', VStr (str_numeric e (bill_amount new_bill))),
                         (''due_date'', VStr (iso_date e (bill_due_date new_bill))),
                         (''recipient_id'', bill_recipient_id new_bill),
                         (''status'', bill_status new_bill)],
                      ev_target = Broadcast\<rparr>])
                 else (Raised StorageError, d, [])))"

definition bill_dict :: "env \<Rightarrow> db \<Rightarrow> bill_row \<Rightarrow> dict" where
  "bill_dict e d b =
     [(''bill_id'', VInt (bill_bill_id b)),
      (''item_name'', bill_item_name b),
      (''amount'', VStr (str_numeric e (bill_amount b))),
      (''due_date'', VStr (iso_date e (bill_due_date b))),
      (''recipient_id'', bill_recipient_id b),
      (''issued_by_user_id'', bill_issued_by_user_id b),
      (''issued_by_user_name'',
         display_name (lookup_user d (bill_issued_by_user_id b)) ''Unknown''),
      (''status'', bill_status b)]"

definition manage_bills_GET :: "env \<Rightarrow> request \<Rightarrow> db \<Rightarrow> result" where
  "manage_bills_GET e req d = (Response 200 (JArr (map (bill_dict e d) (bills d))), d, [])"

definition manage_bills :: "env \<Rightarrow> request \<Rightarrow> db \<Rightarrow> result" where
  "manage_bills e req d =
     (if req_method req = ''POST'' then manage_bills_POST e req d
      else if req_method req = ''GET'' then manage_bills_GET e req d
      else (Raised TypeError, d, []))"

text \<open>
  Deleting a bill also detaches the payments that point to it: the relationship
  \<^verbatim>\<open>Payments.bill\<close> with its backref has no delete cascade, so the session sets their
  \<open>bill_id\<close> to null in the same commit.
\<close>

definition handle_single_bill :: "env \<Rightarrow> int \<Rightarrow> request \<Rightarrow> db \<Rightarrow> result" where
  "handle_single_bill e bill_id req d =
     (case find (\<lambda>b. bill_bill_id b = bill_id) (bills d) of
        None \<Rightarrow> (not_found, d, [])
      | Some bill \<Rightarrow>
          if req_method req = ''PUT'' then
            (let data = req_json req
             in case get_iso_or e data ''due_date'' date_of (bill_due_date bill) of
                  Inl err \<Rightarrow> (Raised err, d, [])
                | Inr due_date \<Rightarrow>
                    (let updated = bill
                           \<lparr>bill_item_name :=
                              dict_get_default data ''item_name'' (bill_item_name bill),
                            bill_amount := dict_get_default data ''amount'' (bill_amount bill),
                            bill_due_date := due_date,
                            bill_recipient_id :=
                              dict_get_default data ''recipient_id'' (bill_recipient_id bill),
                            bill_status := dict_get_default data ''status'' (bill_status bill)\<rparr>
                     in if commit_ok e \<and> bill_item_name updated \<noteq> VNull
                             \<and> bill_amount updated \<noteq> VNull \<and> bill_recipient_id updated \<noteq> VNull
                        then (message_response 200 ''Bill updated successfully'' [],
                              d\<lparr>bills :=
                                  map (\<lambda>x. if bill_bill_id x = bill_id then updated else x)
                                    (bills d)\<rparr>,
                              [\<lparr>ev_name = ''bill_updated'',
                                ev_payload =
                                  [(''bill_id'', VInt (bill_bill_id updated)),
                                   (''item_name'', bill_item_name updated),
                                   (''amount'', VStr (str_numeric e (bill_amount updated))),
                                   (''status'', bill_status updated)],
                                ev_target = Broadcast\<rparr>])
                        else (Raised StorageError, d, [])))
          else if req_method req = ''DELETE'' then
            (let bill_name = bill_item_name bill
             in if commit_ok e
                then (message_response 204 ''Bill deleted successfully'' [],
                      d\<lparr>bills := filter (\<lambda>x. bill_bill_id x \<noteq> bill_id) (bills d),
                        payments :=
                          map (\<lambda>p. if pay_bill_id p = VInt bill_id
                                    then p\<lparr>pay_bill_id := VNull\<rparr> else p) (payments d)\<rparr>,
                      [\<lparr>ev_name = ''bill_deleted'',
                        ev_payload = [(''bill_id'', VInt bill_id), (''item_name'', bill_name)],
                        ev_target = Broadcast\<rparr>])
                else (Raised StorageError, d, []))
          else (Raised TypeError, d, []))"

section \<open>Payments\<close>

definition manage_payments_POST :: "env \<Rightarrow> request \<Rightarrow> db \<Rightarrow> result" where
  "manage_payments_POST e req d =
     (let data = req_json req
      in case bindE (getitem data ''user_id'') (\<lambda>user_id.
              bindE (getitem data ''amount'') (\<lambda>amount.
              Inr (user_id, amount))) of
           Inl err \<Rightarrow> (Raised err, d, [])
         | Inr (user_id, amount) \<Rightarrow>
             (let new_payment =
                    \<lparr>pay_payment_id = next_id (map pay_payment_id (payments d)),
                     pay_user_id = user_id,
                     pay_bill_id = dict_get data ''bill_id'',
                     pay_amount = amount,
                     pay_payment_method = dict_get data ''payment_method'',
                     pay_payment_date = now e,
                     pay_status = dict_get_default data ''status'' (VStr ''pending''),
                     pay_slip_path = dict_get data ''slip_path''\<rparr>
              in if commit_ok e \<and> amount \<noteq> VNull
                 then
                   (let d' = d\<lparr>payments := payments d @ [new_payment]\<rparr>
                    in (message_response 201 ''Payment recorded successfully''
                          [(''payment_id'', VInt (pay_payment_id new_payment))],
                        d',
                        [\<lparr>ev_name = ''new_payment_receipt'',
                          ev_payload =
                            [(''payment_id'', VInt (pay_payment_id new_payment)),
                             (''user_id'', pay_user_id new_payment),
                             (''user_name'',
                                display_name (lookup_user d' (pay_user_id new_payment))
                                  ''Unknown User''),
                             (''amount'', VStr (str_numeric e (pay_amount new_payment))),
                             (''status'', pay_status new_payment),
                             (''bill_id'', pay_bill_id new_payment)],
                          ev_target = Room (VStr ''admins'')\<rparr>]))
                 else (Raised StorageError, d, [])))"

text \<open>The relationship \<^verbatim>\<open>payment.bill\<close>.\<close>

definition lookup_bill :: "db \<Rightarrow> val \<Rightarrow> bill_row option" where
  "lookup_bill d v = find (\<lambda>b. VInt (bill_bill_id b) = v) (bills d)"

definition payment_dict :: "env \<Rightarrow> db \<Rightarrow> payment_row \<Rightarrow> dict" where
  "payment_dict e d p =
     [(''payment_id'', VInt (pay_payment_id p)),
      (''user_id'', pay_user_id p),
      (''user_name'', display_name (lookup_user d (pay_user_id p)) ''Unknown User''),
      (''bill_id'', pay_bill_id p),
      (''bill_item_name'',
         (case lookup_bill d (pay_bill_id p) of Some b \<Rightarrow> bill_item_name b | None \<Rightarrow> VNull)),
      (''amount'', VStr (str_numeric e (pay_amount p))),
      (''payment_method'', pay_payment_method p),
      (''payment_date'', VStr (iso_datetime e (pay_payment_date p))),
      (''status'', pay_status p),
      (''slip_path'', pay_slip_path p)]"

text \<open>
  The GET list takes an optional query argument \<open>user_id\<close>. How the storage compares
  the integer column with the argument's text is the storage's own; here a non-null column
  matches when its decimal text is the argument.
\<close>

definition manage_payments_GET :: "env \<Rightarrow> request \<Rightarrow> db \<Rightarrow> result" where
  "manage_payments_GET e req d =
     (let user_id = dict_get (req_args req) ''user_id'';
          rows = (if truthy user_id
                  then filter (\<lambda>p. pay_user_id p \<noteq> VNull \<and> py_str (pay_user_id p) = py_str user_id)
                         (payments d)
                  else payments d)
      in (Response 200 (JArr (map (payment_dict e d) rows)), d, []))"

definition manage_payments :: "env \<Rightarrow> request \<Rightarrow> db \<Rightarrow> result" where
  "manage_payments e req d =
     (if req_method req = ''POST'' then manage_payments_POST e req d
      else if req_method req = ''GET'' then manage_payments_GET e req d
      else (Raised TypeError, d, []))"

definition approve_payment :: "env \<Rightarrow> int \<Rightarrow> request \<Rightarrow> db \<Rightarrow> result" where
  "approve_payment e payment_id req d =
     (case find (\<lambda>p. pay_payment_id p = payment_id) (payments d) of
        None \<Rightarrow> (not_found, d, [])
      | Some payment \<Rightarrow>
          (let data = req_json req;
               new_status = dict_get_default data ''status'' (VStr ''paid'')
           in if new_status \<notin> set [VStr ''paid'', VStr ''rejected'']
              then (message_response 400 ''Invalid status for payment approval'' [], d, [])
              else
                (let updated = payment\<lparr>pay_status := new_status\<rparr>;
                     bills' = (case lookup_bill d (pay_bill_id payment) of
                                 Some b \<Rightarrow>
                                   map (\<lambda>x. if bill_bill_id x = bill_bill_id b
                                             then x\<lparr>bill_status := new_status\<rparr> else x) (bills d)
                               | None \<Rightarrow> bills d)
                 in if commit_ok e
                    then (message_response 200
                            (''Payment '' @ str_int payment_id @ '' status updated to ''
                               @ py_str new_status) [],
                          d\<lparr>payments :=
                              map (\<lambda>x. if pay_payment_id x = payment_id then updated else x)
                                (payments d),
                            bills := bills'\<rparr>,
                          [\<lparr>ev_name = ''payment_approved'',
                            ev_payload =
                              [(''payment_id'', VInt (pay_payment_id updated)),
                               (''user_id'', pay_user_id updated),
                               (''bill_id'', pay_bill_id updated),
                               (''status'', pay_status updated)],
                            ev_target = Broadcast\<rparr>])
                    else (Raised StorageError, d, []))))"

section \<open>Calendar events and documents\<close>

definition manage_calendar_events_POST :: "env \<Rightarrow> request \<Rightarrow> db \<Rightarrow> result" where
  "manage_calendar_events_POST e req d =
     (let data = req_json req
      in case bindE (getitem data ''event_name'') (\<lambda>event_name.
              bindE (get_iso e data ''event_date'') (\<lambda>event_date.
              Inr (event_name, event_date))) of
           Inl err \<Rightarrow> (Raised err, d, [])
         | Inr (event_name, event_date) \<Rightarrow>
             (let new_event =
                    \<lparr>cal_event_id = next_id (map cal_event_id (calendar_events d)),
                     cal_event_name = event_name,
                     cal_event_date = event_date,
                     cal_location = dict_get data ''location'',
                     cal_description = dict_get data ''description''\<rparr>
              in if commit_ok e \<and> event_name \<noteq> VNull
                 then
                   (message_response 201 ''Calendar event created successfully''
                      [(''event_id'', VInt (cal_event_id new_event))],
                    d\<lparr>calendar_events := calendar_events d @ [new_event]\<rparr>,
                    [\<lparr>ev_name = ''new_calendar_event'',
                      ev_payload =
                        [(''event_id'', VInt (cal_event_id new_event)),
                         (''event_name'', cal_event_name new_event),
                         (''event_date'', VStr (iso_datetime e (cal_event_date new_event))),
                         (''location'', cal_location new_event)],
                      ev_target = Broadcast\<rparr>])
                 else (Raised StorageError, d, [])))"

definition calendar_dict :: "env \<Rightarrow> calendar_row \<Rightarrow> dict" where
  "calendar_dict e c =
     [(''event_id'', VInt (cal_event_id c)),
      (''event_name'', cal_event_name c),
      (''event_date'', VStr (iso_datetime e (cal_event_date c))),
      (''location'', cal_location c),
      (''description'', cal_description c)]"

definition manage_calendar_events :: "env \<Rightarrow> request \<Rightarrow> db \<Rightarrow> result" where
  "manage_calendar_events e req d =
     (if req_method req = ''POST'' then manage_calendar_events_POST e req d
      else if req_method req = ''GET''
        then (Response 200 (JArr (map (calendar_dict e) (calendar_events d))), d, [])
      else (Raised TypeError, d, []))"

definition manage_documents_POST :: "env \<Rightarrow> request \<Rightarrow> db \<Rightarrow> result" where
  "manage_documents_POST e req d =
     (let data = req_json req
      in case bindE (getitem data ''document_name'') (\<lambda>document_name.
              bindE (getitem data ''file_path'') (\<lambda>file_path.
              bindE (getitem data ''uploaded_by_user_id'') (\<lambda>uploaded_by_user_id.
              Inr (document_name, file_path, uploaded_by_user_id)))) of
           Inl err \<Rightarrow> (Raised err, d, [])
         | Inr (document_name, file_path, uploaded_by_user_id) \<Rightarrow>
             (let new_doc =
                    \<lparr>doc_document_id = next_id (map doc_document_id (documents d)),
                     doc_document_name = document_name,
                     doc_file_path = file_path,
                     doc_uploaded_by_user_id = uploaded_by_user_id,
                     doc_upload_date = now e,
                     doc_category = dict_get data ''category''\<rparr>
              in if commit_ok e \<and> document_name \<noteq> VNull \<and> file_path \<noteq> VNull
                 then
                   (message_response 201 ''Document uploaded successfully''
                      [(''document_id'', VInt (doc_document_id new_doc))],
                    d\<lparr>documents := documents d @ [new_doc]\<rparr>,
                    [])
                 else (Raised StorageError, d, [])))"

definition document_dict :: "env \<Rightarrow> db \<Rightarrow> document_row \<Rightarrow> dict" where
  "document_dict e d doc =
     [(''document_id'', VInt (doc_document_id doc)),
      (''document_name'', doc_document_name doc),
      (''file_path'', doc_file_path doc),
      (''uploaded_by_user_id'', doc_uploaded_by_user_id doc),
      (''uploaded_by_user_name'',
         display_name (lookup_user d (doc_uploaded_by_user_id doc)) ''Unknown User''),
      (''upload_date'', VStr (iso_datetime e (doc_upload_date doc))),
      (''category'', doc_category doc)]"

definition manage_documents :: "env \<Rightarrow> request \<Rightarrow> db \<Rightarrow> result" where
  "manage_documents e req d =
     (if req_method req = ''POST'' then manage_documents_POST e req d
      else if req_method req = ''GET''
        then (Response 200 (JArr (map (document_dict e d) (documents d))), d, [])
      else (Raised TypeError, d, []))"

section \<open>Security visitors and incidents\<close>

definition manage_security_visitors_POST :: "env \<Rightarrow> request \<Rightarrow> db \<Rightarrow> result" where
  "manage_security_visitors_POST e req d =
     (let data = req_json req
      in case bindE (getitem data ''user_id'') (\<lambda>user_id.
              bindE (getitem data ''name'') (\<lambda>name.
              bindE (get_iso e data ''visit_date'') (\<lambda>vd.
              bindE (get_iso e data ''visit_time'') (\<lambda>vt.
              Inr (user_id, name, date_of vd, time_of vt))))) of
           Inl err \<Rightarrow> (Raised err, d, [])
         | Inr (user_id, name, visit_date, visit_time) \<Rightarrow>
             (let new_visitor =
                    \<lparr>vis_visitor_id = next_id (map vis_visitor_id (security_visitors d)),
                     vis_user_id = user_id,
                     vis_name = name,
                     vis_phone = dict_get data ''phone'',
                     vis_visit_date = visit_date,
                     vis_visit_time = visit_time,
                     vis_purpose = dict_get data ''purpose''\<rparr>
              in if commit_ok e \<and> name \<noteq> VNull
                 then
                   (let d' = d\<lparr>security_visitors := security_visitors d @ [new_visitor]\<rparr>
                    in (message_response 201 ''Visitor registered successfully''
                          [(''visitor_id'', VInt (vis_visitor_id new_visitor))],
                        d',
                        [\<lparr>ev_name = ''new_visitor_registered'',
                          ev_payload =
                            [(''visitor_id'', VInt (vis_visitor_id new_visitor)),
                             (''name'', vis_name new_visitor),
                             (''visit_date'', VStr (iso_date e (vis_visit_date new_visitor))),
                             (''user_id'', vis_user_id new_visitor),
                             (''user_name'',
                                display_name (lookup_user d' (vis_user_id new_visitor))
                                  ''Unknown User'')],
                          ev_target = Room (VStr ''admins'')\<rparr>]))
                 else (Raised StorageError, d, [])))"

definition visitor_dict :: "env \<Rightarrow> db \<Rightarrow> visitor_row \<Rightarrow> dict" where
  "visitor_dict e d v =
     [(''visitor_id'', VInt (vis_visitor_id v)),
      (''user_id'', vis_user_id v),
      (''user_name'', display_name (lookup_user d (vis_user_id v)) ''Unknown User''),
      (''name'', vis_name v),
      (''phone'', vis_phone v),
      (''visit_date'', VStr (iso_date e (vis_visit_date v))),
      (''visit_time'', VStr (iso_time e (vis_visit_time v))),
      (''purpose'', vis_purpose v)]"

definition manage_security_visitors :: "env \<Rightarrow> request \<Rightarrow> db \<Rightarrow> result" where
  "manage_security_visitors e req d =
     (if req_method req = ''POST'' then manage_security_visitors_POST e req d
      else if req_method req = ''GET''
        then (Response 200 (JArr (map (visitor_dict e d) (security_visitors d))), d, [])
      else (Raised TypeError, d, []))"

definition manage_security_incidents_POST :: "env \<Rightarrow> request \<Rightarrow> db \<Rightarrow> result" where
  "manage_security_incidents_POST e req d =
     (let data = req_json req
      in case bindE (getitem data ''user_id'') (\<lambda>user_id.
              bindE (getitem data ''description'') (\<lambda>description.
              Inr (user_id, description))) of
           Inl err \<Rightarrow> (Raised err, d, [])
         | Inr (user_id, description) \<Rightarrow>
             (let new_incident =
                    \<lparr>inc_incident_id = next_id (map inc_incident_id (security_incidents d)),
                     inc_user_id = user_id,
                     inc_description = description,
                     inc_reported_date = now e,
                     inc_evidence_paths = dict_get data ''evidence_paths''\<rparr>
              in if commit_ok e \<and> description \<noteq> VNull
                 then
                   (let d' = d\<lparr>security_incidents := security_incidents d @ [new_incident]\<rparr>
                    in (message_response 201 ''Incident reported successfully''
                          [(''incident_id'', VInt (inc_incident_id new_incident))],
                        d',
                        [\<lparr>ev_name = ''new_incident_reported'',
                          ev_payload =
                            [(''incident_id'', VInt (inc_incident_id new_incident)),
                             (''user_id'', inc_user_id new_incident),
                             (''user_name'',
                                display_name (lookup_user d' (inc_user_id new_incident))
                                  ''Unknown User''),
                             (''description'', inc_description new_incident),
                             (''reported_date'',
                                VStr (iso_datetime e (inc_reported_date new_incident)))],
                          ev_target = Room (VStr ''admins'')\<rparr>]))
                 else (Raised StorageError, d, [])))"

definition incident_dict :: "env \<Rightarrow> db \<Rightarrow> incident_row \<Rightarrow> dict" where
  "incident_dict e d i =
     [(''incident_id'', VInt (inc_incident_id i)),
      (''user_id'', inc_user_id i),
      (''user_name'', display_name (lookup_user d (inc_user_id i)) ''Unknown User''),
      (''description'', inc_description i),
      (''reported_date'', VStr (iso_datetime e (inc_reported_date i))),
      (''evidence_paths'', inc_evidence_paths i)]"

definition manage_security_incidents :: "env \<Rightarrow> request \<Rightarrow> db \<Rightarrow> result" where
  "manage_security_incidents e req d =
     (if req_method req = ''POST'' then manage_security_incidents_POST e req d
      else if req_method req = ''GET''
        then (Response 200 (JArr (map (incident_dict e d) (security_incidents d))), d, [])
      else (Raised TypeError, d, []))"

section \<open>Votes\<close>

text \<open>
  \<^verbatim>\<open>manage_voting_results\<close>: a POST first looks for a vote of the same poll and user
  (\<^verbatim>\<open>filter_by(...).first()\<close>) and answers 409 when there is one.
\<close>

definition manage_voting_results_POST :: "env \<Rightarrow> request \<Rightarrow> db \<Rightarrow> result" where
  "manage_voting_results_POST e req d =
     (let data = req_json req
      in case bindE (getitem data ''poll_id'') (\<lambda>poll_id.
              bindE (getitem data ''user_id'') (\<lambda>user_id.
              Inr (poll_id, user_id))) of
           Inl err \<Rightarrow> (Raised err, d, [])
         | Inr (poll_id, user_id) \<Rightarrow>
             (case find (\<lambda>r. vr_poll_id r = poll_id \<and> vr_user_id r = user_id) (voting_results d) of
                Some existing_vote \<Rightarrow>
                  (message_response 409 ''You have already voted in this poll.'' [], d, [])
              | None \<Rightarrow>
                  (case getitem data ''option_id'' of
                     Inl err \<Rightarrow> (Raised err, d, [])
                   | Inr option_id \<Rightarrow>
                       (let new_result =
                              \<lparr>vr_result_id = next_id (map vr_result_id (voting_results d)),
                               vr_poll_id = poll_id,
                               vr_option_id = option_id,
                               vr_user_id = user_id\<rparr>
                        in if commit_ok e
                           then (message_response 201 ''Vote recorded successfully''
                                   [(''result_id'', VInt (vr_result_id new_result))],
                                 d\<lparr>voting_results := voting_results d @ [new_result]\<rparr>,
                                 [])
                           else (Raised StorageError, d, [])))))"

definition vote_dict :: "vote_row \<Rightarrow> dict" where
  "vote_dict r =
     [(''result_id'', VInt (vr_result_id r)),
      (''poll_id'', vr_poll_id r),
      (''option_id'', vr_option_id r),
      (''user_id'', vr_user_id r)]"

definition manage_voting_results :: "env \<Rightarrow> request \<Rightarrow> db \<Rightarrow> result" where
  "manage_voting_results e req d =
     (if req_method req = ''POST'' then manage_voting_results_POST e req d
      else if req_method req = ''GET''
        then (Response 200 (JArr (map vote_dict (voting_results d))), d, [])
      else (Raised TypeError, d, []))"

section \<open>Routing\<close>

text \<open>
  One constructor per modelled route or Socket.IO event, with the path parameter and the
  request or event data. \<open>dispatch\<close> is Flask's routing: a route with GET also takes
  HEAD, OPTIONS is answered without the view, and any other method outside the route's
  \<^verbatim>\<open>methods=[...]\<close> is answered 405 before the view runs. The routes for users, login,
  uploads, polls and their options, the deletion of a document and the room-joining events
  emit none of the events below and are not modelled.
\<close>

datatype call =
    Announcements request
  | SingleAnnouncement int request
  | RepairRequests request
  | SingleRepairRequest int request
  | BookingRequests request
  | SingleBookingRequest int request
  | Bills request
  | SingleBill int request
  | Payments request
  | ApprovePayment int request
  | CalendarEvents request
  | Documents request
  | SecurityVisitors request
  | SecurityIncidents request
  | VotingResults request
  | ChatMessages request
  | SendMessage dict

definition routed :: "string list \<Rightarrow> request \<Rightarrow> db \<Rightarrow> result \<Rightarrow> result" where
  "routed methods req d r =
     (if req_method req \<in> set methods \<or> (req_method req = ''HEAD'' \<and> ''GET'' \<in> set methods)
      then r
      else if req_method req = ''OPTIONS'' then (Response 200 (JObj []), d, [])
      else (Response 405 (JObj []), d, []))"

fun dispatch :: "env \<Rightarrow> call \<Rightarrow> db \<Rightarrow> result" where
  "dispatch e (Announcements req) d =
     routed [''GET'', ''POST''] req d (manage_announcements e req d)"
| "dispatch e (SingleAnnouncement i req) d =
     routed [''PUT'', ''DELETE''] req d (handle_single_announcement e i req d)"
| "dispatch e (RepairRequests req) d =
     routed [''GET'', ''POST''] req d (manage_repair_requests e req d)"
| "dispatch e (SingleRepairRequest i req) d =
     routed [''PUT'', ''DELETE''] req d (handle_single_repair_request e i req d)"
| "dispatch e (BookingRequests req) d =
     routed [''GET'', ''POST''] req d (manage_booking_requests e req d)"
| "dispatch e (SingleBookingRequest i req) d =
     routed [''PUT'', ''DELETE''] req d (handle_single_booking_request e i req d)"
| "dispatch e (Bills req) d =
     routed [''GET'', ''POST''] req d (manage_bills e req d)"
| "dispatch e (SingleBill i req) d =
     routed [''PUT'', ''DELETE''] req d (handle_single_bill e i req d)"
| "dispatch e (Payments req) d =
     routed [''GET'', ''POST''] req d (manage_payments e req d)"
| "dispatch e (ApprovePayment i req) d =
     routed [''PUT''] req d (approve_payment e i req d)"
| "dispatch e (CalendarEvents req) d =
     routed [''GET'', ''POST''] req d (manage_calendar_events e req d)"
| "dispatch e (Documents req) d =
     routed [''GET'', ''POST''] req d (manage_documents e req d)"
| "dispatch e (SecurityVisitors req) d =
     routed [''GET'', ''POST''] req d (manage_security_visitors e req d)"
| "dispatch e (SecurityIncidents req) d =
     routed [''GET'', ''POST''] req d (manage_security_incidents e req d)"
| "dispatch e (VotingResults req) d =
     routed [''GET'', ''POST''] req d (manage_voting_results e req d)"
| "dispatch e (ChatMessages req) d =
     routed [''GET''] req d (Response 200 (JArr (get_chat_messages e d)), d, [])"
| "dispatch e (SendMessage data) d =
     (case handle_send_message e data d of (d', evs) \<Rightarrow> (Returned, d', evs))"

section \<open>The specification's tables\<close>

text \<open>
  The outbound events of the specification (section 6) and the delivery target it lists
  for each: the mutation that has the event, the event's name and where it goes.
\<close>

datatype delivery = ToAdmins | ToUserRoom | ToEveryone

definition rest_event :: "call \<Rightarrow> (string \<times> delivery) option" where
  "rest_event c =
     (case c of
        Announcements req \<Rightarrow>
          if req_method req = ''POST'' then Some (''new_announcement'', ToEveryone) else None
      | SingleAnnouncement i req \<Rightarrow>
          if req_method req = ''PUT'' then Some (''announcement_updated'', ToEveryone)
          else if req_method req = ''DELETE'' then Some (''announcement_deleted'', ToEveryone)
          else None
      | RepairRequests req \<Rightarrow>
          if req_method req = ''POST'' then Some (''new_repair_request'', ToAdmins) else None
      | SingleRepairRequest i req \<Rightarrow>
          if req_method req = ''PUT'' then Some (''repair_status_updated'', ToUserRoom) else None
      | BookingRequests req \<Rightarrow>
          if req_method req = ''POST'' then Some (''new_booking_request'', ToAdmins) else None
      | SingleBookingRequest i req \<Rightarrow>
          if req_method req = ''PUT'' then Some (''booking_status_updated'', ToUserRoom) else None
      | Bills req \<Rightarrow>
          if req_method req = ''POST'' then Some (''new_bill_created'', ToEveryone) else None
      | SingleBill i req \<Rightarrow>
          if req_method req = ''PUT'' then Some (''bill_updated'', ToEveryone)
          else if req_method req = ''DELETE'' then Some (''bill_deleted'', ToEveryone)
          else None
      | Payments req \<Rightarrow>
          if req_method req = ''POST'' then Some (''new_payment_receipt'', ToAdmins) else None
      | ApprovePayment i req \<Rightarrow>
          if req_method req = ''PUT'' then Some (''payment_approved'', ToEveryone) else None
      | CalendarEvents req \<Rightarrow>
          if req_method req = ''POST'' then Some (''new_calendar_event'', ToEveryone) else None
      | SecurityVisitors req \<Rightarrow>
          if req_method req = ''POST'' then Some (''new_visitor_registered'', ToAdmins) else None
      | SecurityIncidents req \<Rightarrow>
          if req_method req = ''POST'' then Some (''new_incident_reported'', ToAdmins) else None
      | _ \<Rightarrow> None)"

text \<open>The user a status update is about: the owner of the repair or booking request.\<close>

definition affected_user :: "call \<Rightarrow> db \<Rightarrow> val" where
  "affected_user c d =
     (case c of
        SingleRepairRequest i req \<Rightarrow>
          (case find (\<lambda>r. rr_request_id r = i) (repair_requests d) of
             Some r \<Rightarrow> rr_user_id r | None \<Rightarrow> VNull)
      | SingleBookingRequest i req \<Rightarrow>
          (case find (\<lambda>b. bk_booking_id b = i) (booking_requests d) of
             Some b \<Rightarrow> bk_user_id b | None \<Rightarrow> VNull)
      | _ \<Rightarrow> VNull)"

fun expected_target :: "delivery \<Rightarrow> val \<Rightarrow> target" where
  "expected_target ToAdmins uid = Room (VStr ''admins'')"
| "expected_target ToUserRoom uid = Room (VStr (''user_'' @ py_str uid))"
| "expected_target ToEveryone uid = Broadcast"

definition succeeded :: "outcome \<Rightarrow> bool" where
  "succeeded out = (case out of Response code b \<Rightarrow> 200 \<le> code \<and> code < 300 | _ \<Rightarrow> False)"

text \<open>
  The row an event is about is in the committed tables: a created or updated row is there
  under the key the payload carries, a deleted row is gone.
\<close>

definition has_id :: "dict \<Rightarrow> string \<Rightarrow> int list \<Rightarrow> bool" where
  "has_id p k ids = (dict_get p k \<in> set (map VInt ids))"

definition committed :: "emission \<Rightarrow> db \<Rightarrow> bool" where
  "committed ev d =
     (let n = ev_name ev; p = ev_payload ev
      in if n = ''new_announcement'' \<or> n = ''announcement_updated''
           then has_id p ''announcement_id'' (map ann_announcement_id (announcements d))
         else if n = ''announcement_deleted''
           then \<not> has_id p ''announcement_id'' (map ann_announcement_id (announcements d))
         else if n = ''new_repair_request'' \<or> n = ''repair_status_updated''
           then has_id p ''request_id'' (map rr_request_id (repair_requests d))
         else if n = ''new_booking_request'' \<or> n = ''booking_status_updated''
           then has_id p ''booking_id'' (map bk_booking_id (booking_requests d))
         else if n = ''new_bill_created'' \<or> n = ''bill_updated''
           then has_id p ''bill_id'' (map bill_bill_id (bills d))
         else if n = ''bill_deleted''
           then \<not> has_id p ''bill_id'' (map bill_bill_id (bills d))
         else if n = ''new_payment_receipt'' \<or> n = ''payment_approved''
           then has_id p ''payment_id'' (map pay_payment_id (payments d))
         else if n = ''new_calendar_event''
           then has_id p ''event_id'' (map cal_event_id (calendar_events d))
         else if n = ''new_visitor_registered''
           then has_id p ''visitor_id'' (map vis_visitor_id (security_visitors d))
         else if n = ''new_incident_reported''
           then has_id p ''incident_id'' (map inc_incident_id (security_incidents d))
         else if n = ''receive_message''
           then has_id p ''message_id'' (map msg_message_id (chat_messages d))
         else False)"

text \<open>
  Payloads with a display name resolved through a user: the key of the name, the key of
  the foreign key it is resolved from, and the placeholder the source writes when the user
  cannot be resolved. First for events, by name, then for the GET lists, by route.
\<close>

definition event_display_name :: "string \<Rightarrow> (string \<times> string \<times> string) option" where
  "event_display_name n =
     (if n = ''new_announcement'' \<or> n = ''announcement_updated''
        then Some (''author_name'', ''author_id'', ''Unknown Author'')
      else if n \<in> set [''new_repair_request'', ''new_booking_request'', ''new_payment_receipt'',
                       ''new_visitor_registered'', ''new_incident_reported'']
        then Some (''user_name'', ''user_id'', ''Unknown User'')
      else if n = ''receive_message''
        then Some (''sender_name'', ''sender_id'', ''Unknown User'')
      else None)"

definition read_display_name :: "call \<Rightarrow> (string \<times> string \<times> string) option" where
  "read_display_name c =
     (case c of
        Announcements req \<Rightarrow> Some (''author_name'', ''author_id'', ''Unknown Author'')
      | RepairRequests req \<Rightarrow> Some (''user_name'', ''user_id'', ''Unknown User'')
      | BookingRequests req \<Rightarrow> Some (''user_name'', ''user_id'', ''Unknown User'')
      | Bills req \<Rightarrow> Some (''issued_by_user_name'', ''issued_by_user_id'', ''Unknown'')
      | Payments req \<Rightarrow> Some (''user_name'', ''user_id'', ''Unknown User'')
      | Documents req \<Rightarrow>
          Some (''uploaded_by_user_name'', ''uploaded_by_user_id'', ''Unknown User'')
      | SecurityVisitors req \<Rightarrow> Some (''user_name'', ''user_id'', ''Unknown User'')
      | SecurityIncidents req \<Rightarrow> Some (''user_name'', ''user_id'', ''Unknown User'')
      | ChatMessages req \<Rightarrow> Some (''sender_name'', ''sender_id'', ''Unknown User'')
      | _ \<Rightarrow> None)"

section \<open>The mutation-event contract\<close>

text \<open>
  A payload honours the placeholder rule for a display name when, the user behind the
  foreign key being unresolved, the name it carries is the placeholder.
\<close>

definition placeholder_ok :: "db \<Rightarrow> dict \<Rightarrow> (string \<times> string \<times> string) option \<Rightarrow> bool" where
  "placeholder_ok d p spec =
     (case spec of
        None \<Rightarrow> True
      | Some (k, fk, ph) \<Rightarrow>
          lookup_user d (dict_get p fk) = None \<longrightarrow> map_of p k = Some (VStr ph))"

text \<open>
  The two ways a request can end under the contract of the specification (section 4.3).
  Quiet: nothing is emitted, a refused commit leaves the tables alone, the request is not
  a successful mutation that has an event, and a list that is returned honours the
  placeholder rule. Published: the commit went through, the answer is a success, and
  exactly one event is emitted, the one the table gives for the mutation, to the table's
  target, for a committed row, with a payload that honours the placeholder rule.
\<close>

definition quiet_result :: "env \<Rightarrow> call \<Rightarrow> db \<Rightarrow> result \<Rightarrow> bool" where
  "quiet_result e c d r =
     (case r of (out, d', evs) \<Rightarrow>
        evs = [] \<and> (\<not> commit_ok e \<longrightarrow> d' = d) \<and> (succeeded out \<longrightarrow> rest_event c = None)
        \<and> (\<forall>code rows. out = Response code (JArr rows) \<longrightarrow>
              (\<forall>row \<in> set rows. placeholder_ok d row (read_display_name c))))"

definition published_result :: "env \<Rightarrow> call \<Rightarrow> db \<Rightarrow> result \<Rightarrow> bool" where
  "published_result e c d r =
     (case r of (out, d', evs) \<Rightarrow>
        commit_ok e \<and> succeeded out \<and> (\<forall>code rows. out \<noteq> Response code (JArr rows))
        \<and> (\<exists>ev tgt. evs = [ev] \<and> rest_event c = Some (ev_name ev, tgt)
              \<and> ev_target ev = expected_target tgt (affected_user c d')
              \<and> committed ev d'
              \<and> placeholder_ok d' (ev_payload ev) (event_display_name (ev_name ev))))"

section \<open>Example states\<close>

text \<open>A concrete environment and concrete tables, for the closed instances below.\<close>

definition example_env :: env where
  "example_env =
     \<lparr>now = 5, commit_ok = True,
      fromisoformat = (\<lambda>s. if s = ''1970-01-02'' then Some 86400000000 else None),
      iso_datetime = str_int, iso_date = str_int, iso_time = str_int, str_numeric = py_str\<rparr>"

definition empty_db :: db where
  "empty_db =
     \<lparr>users = [], announcements = [], repair_requests = [], booking_requests = [], bills = [],
      payments = [], calendar_events = [], documents = [], chat_messages = [],
      security_visitors = [], security_incidents = [], voting_results = []\<rparr>"

definition bob :: user_row where
  "bob = \<lparr>u_user_id = 1, u_name = ''bob'', u_avatar = None\<rparr>"

definition chat_row_of :: "int \<Rightarrow> int \<Rightarrow> string \<Rightarrow> chat_row" where
  "chat_row_of i t room =
     \<lparr>msg_message_id = i, msg_sender_id = VInt 1, msg_receiver_id = VNull,
      msg_content = VStr ''hi'', msg_timestamp = t, msg_room_name = VStr room\<rparr>"

definition two_room_db :: db where
  "two_room_db =
     empty_db\<lparr>chat_messages := [chat_row_of 1 10 ''general'', chat_row_of 2 20 ''admins'']\<rparr>"

text \<open>
  Two messages whose timestamps run against their identifiers: the second insert carries
  the earlier clock reading (the clock is read by the application before the storage
  assigns the key).
\<close>

definition hi_general :: dict where
  "hi_general = [(''sender_id'', VInt 1), (''content'', VStr ''hi''), (''room_name'', VStr ''general'')]"

definition skewed_db :: db where
  "skewed_db =
     empty_db\<lparr>users := [bob],
              chat_messages := [chat_row_of 1 20 ''general'', chat_row_of 2 10 ''general'']\<rparr>"


definition repair_post :: request where
  "repair_post =
     \<lparr>req_method = ''POST'',
      req_json = [(''user_id'', VInt 7), (''title'', VStr ''tap''), (''category'', VStr ''water''),
                  (''description'', VStr ''leaks'')],
      req_args = []\<rparr>"

definition repair_put :: request where
  "repair_put =
     \<lparr>req_method = ''PUT'', req_json = [(''status'', VStr ''done'')], req_args = []\<rparr>"

definition tap_repair :: repair_row where
  "tap_repair =
     \<lparr>rr_request_id = 1, rr_user_id = VInt 7, rr_title = VStr ''tap'',
      rr_category = VStr ''water'', rr_description = VStr ''leaks'', rr_submitted_date = 5,
      rr_status = VStr ''pending'', rr_image_paths = VNull\<rparr>"

definition repair_db :: db where
  "repair_db = empty_db\<lparr>repair_requests := [tap_repair]\<rparr>"



definition vote_post :: request where
  "vote_post =
     \<lparr>req_method = ''POST'',
      req_json = [(''poll_id'', VInt 3), (''option_id'', VInt 2), (''user_id'', VInt 1)],
      req_args = []\<rparr>"

definition cast_vote :: vote_row where
  "cast_vote = \<lparr>vr_result_id = 1, vr_poll_id = VInt 3, vr_option_id = VInt 1, vr_user_id = VInt 1\<rparr>"

definition vote_db :: db where
  "vote_db = empty_db\<lparr>voting_results := [cast_vote]\<rparr>"

section \<open>Chat history\<close>

text \<open>
  Claim C1, as amended. The claim says that the list of GET /chat-messages is ascending in
  the message identifier. The query orders by \<open>timestamp\<close>, so what holds is: the rows
  behind the returned list are exactly the stored messages, in non-decreasing timestamp
  order, and the returned identifiers are theirs in that order. When the timestamps
  strictly increase along insertion order, the list is the insertion order.
\<close>

theorem chat_history_timestamp_order:
  "sorted (map msg_timestamp (ordered_messages d))
   \<and> mset (ordered_messages d) = mset (chat_messages d)
   \<and> map (\<lambda>r. map_of r ''message_id'') (get_chat_messages e d)
       = map (\<lambda>m. Some (VInt (msg_message_id m))) (ordered_messages d)
   \<and> (sorted_wrt (<) (map msg_timestamp (chat_messages d))
        \<longrightarrow> ordered_messages d = chat_messages d)"
  by (simp add: ordered_messages_def get_chat_messages_def message_payload_def
      sort_key_id_if_sorted strict_sorted_imp_sorted)

theorem chat_history_timestamp_order_witness:
  "sorted (map msg_timestamp (ordered_messages two_room_db))
   \<and> sorted_wrt (<) (map msg_timestamp (chat_messages two_room_db))
   \<and> ordered_messages two_room_db = chat_messages two_room_db
   \<and> map msg_message_id (ordered_messages two_room_db) = [1, 2]"
  using chat_history_timestamp_order [of two_room_db example_env]
  by (simp add: two_room_db_def empty_db_def chat_row_of_def)

text \<open>
  The claim as stated fails: with message 1 stamped 20 and message 2 stamped 10, the
  history lists message 2 before message 1, although they were inserted as 1, 2. Two
  sends reach that state when the second commit carries the earlier clock reading.
\<close>

theorem chat_history_id_order_counterexample:
  "map (\<lambda>r. map_of r ''message_id'') (get_chat_messages example_env skewed_db)
     = [Some (VInt 2), Some (VInt 1)]
   \<and> \<not> sorted_wrt (<) (map msg_message_id (ordered_messages skewed_db))
   \<and> map msg_message_id (chat_messages skewed_db) = [1, 2]
   \<and> fst (handle_send_message (example_env\<lparr>now := 10\<rparr>) hi_general
          (fst (handle_send_message (example_env\<lparr>now := 20\<rparr>) hi_general
             (empty_db\<lparr>users := [bob]\<rparr>)))) = skewed_db"
  by (simp add: get_chat_messages_def skewed_db_def empty_db_def ordered_messages_def
      chat_row_of_def message_payload_def handle_send_message_def Let_def hi_general_def
      dict_get_def dict_get_default_def example_env_def new_chat_row_def next_id_def)

text \<open>
  Claim C10. GET /chat-messages reads no room argument and filters nothing: whatever the
  query arguments, the answer is the list built from every stored message, and its
  identifiers and room names are those of all the rows of the table, each once.
\<close>

theorem chat_history_all_rooms:
  assumes "req_method req = ''GET''"
  shows "dispatch e (ChatMessages req) d = (Response 200 (JArr (get_chat_messages e d)), d, [])
     \<and> mset (map (\<lambda>r. (map_of r ''message_id'', map_of r ''room_name''))
               (get_chat_messages e d))
        = mset (map (\<lambda>m. (Some (VInt (msg_message_id m)), Some (msg_room_name m)))
               (chat_messages d))"
proof -
  have "map (\<lambda>r. (map_of r ''message_id'', map_of r ''room_name'')) (get_chat_messages e d)
      = map (\<lambda>m. (Some (VInt (msg_message_id m)), Some (msg_room_name m))) (ordered_messages d)"
    by (simp add: get_chat_messages_def message_payload_def)
  moreover have "mset (ordered_messages d) = mset (chat_messages d)"
    by (simp add: ordered_messages_def)
  ultimately have
    "mset (map (\<lambda>r. (map_of r ''message_id'', map_of r ''room_name'')) (get_chat_messages e d))
       = mset (map (\<lambda>m. (Some (VInt (msg_message_id m)), Some (msg_room_name m)))
              (chat_messages d))"
    by (metis mset_map)
  then show ?thesis using assms by (simp add: routed_def)
qed

theorem chat_history_all_rooms_witness:
  "dispatch example_env
     (ChatMessages \<lparr>req_method = ''GET'', req_json = [],
                    req_args = [(''room_name'', VStr ''general'')]\<rparr>) two_room_db
     = (Response 200 (JArr (get_chat_messages example_env two_room_db)), two_room_db, [])
   \<and> map (\<lambda>r. map_of r ''room_name'') (get_chat_messages example_env two_room_db)
      = [Some (VStr ''general''), Some (VStr ''admins'')]"
  using chat_history_all_rooms
    [of "\<lparr>req_method = ''GET'', req_json = [], req_args = [(''room_name'', VStr ''general'')]\<rparr>"
        example_env two_room_db]
  by (simp add: get_chat_messages_def two_room_db_def empty_db_def ordered_messages_def
      chat_row_of_def message_payload_def)

section \<open>Sending a chat message\<close>

text \<open>
  Claim C3. When \<open>sender_id\<close> or \<open>content\<close> is missing from a send_message request
  (the key is absent, or its value is null, empty or otherwise false), the handler emits
  one \<open>error\<close> event, to the originating connection, writes no row and publishes
  nothing to a room.
\<close>

theorem send_message_missing_field:
  assumes "\<not> truthy (dict_get data ''sender_id'') \<or> \<not> truthy (dict_get data ''content'')"
  shows "handle_send_message e data d = (d, [error_event ''Missing sender_id or content''])
         \<and> ev_name (error_event ''Missing sender_id or content'') = ''error''
         \<and> ev_target (error_event ''Missing sender_id or content'') = Originator"
  using assms by (auto simp: handle_send_message_def Let_def error_event_def)

theorem send_message_missing_field_witness:
  "handle_send_message example_env [(''sender_id'', VInt 1), (''content'', VStr [])] empty_db
     = (empty_db, [error_event ''Missing sender_id or content''])
   \<and> handle_send_message example_env [(''content'', VStr ''hi'')] empty_db
     = (empty_db, [error_event ''Missing sender_id or content''])"
  using send_message_missing_field
          [of "[(''sender_id'', VInt 1), (''content'', VStr [])]" example_env empty_db]
        send_message_missing_field [of "[(''content'', VStr ''hi'')]" example_env empty_db]
  by (simp add: dict_get_def)

text \<open>
  Claim C4. When a send_message request passes validation and the persistence step fails,
  the tables are unchanged, one \<open>error\<close> event goes to the originating connection, and
  no \<open>receive_message\<close> event is published.
\<close>

theorem send_message_persistence_failure:
  assumes "truthy (dict_get data ''sender_id'')" and "truthy (dict_get data ''content'')"
    and "\<not> commit_ok e"
  shows "handle_send_message e data d = (d, [error_event ''Failed to send message''])
         \<and> ev_name (error_event ''Failed to send message'') = ''error''
         \<and> ev_target (error_event ''Failed to send message'') = Originator"
  using assms by (auto simp: handle_send_message_def Let_def error_event_def)

theorem send_message_persistence_failure_witness:
  "handle_send_message (example_env\<lparr>commit_ok := False\<rparr>)
      [(''sender_id'', VInt 1), (''content'', VStr ''hi''), (''room_name'', VStr ''general'')]
      empty_db
     = (empty_db, [error_event ''Failed to send message''])"
  using send_message_persistence_failure
    [of "[(''sender_id'', VInt 1), (''content'', VStr ''hi''), (''room_name'', VStr ''general'')]"
        "example_env\<lparr>commit_ok := False\<rparr>" empty_db]
  by (simp add: dict_get_def example_env_def)

text \<open>
  Claim C9. A send_message request without the key \<open>room_name\<close> that passes validation
  and is accepted by the storage is persisted with the room name \<open>general_chat\<close>, and
  its \<open>receive_message\<close> event, whose payload names that room, is published to the
  room \<open>general_chat\<close>. The column default, which a null room name would take, is
  \<open>general\<close>.
\<close>

theorem send_message_default_room:
  assumes "map_of data ''room_name'' = None"
    and "truthy (dict_get data ''sender_id'')" and "truthy (dict_get data ''content'')"
    and "commit_ok e"
  shows "(let sender_id = dict_get data ''sender_id'';
              msg = new_chat_row e d sender_id (dict_get data ''content'') (VStr ''general_chat'');
              payload = message_payload e msg (lookup_user d sender_id)
          in handle_send_message e data d =
               (d\<lparr>chat_messages := chat_messages d @ [msg]\<rparr>,
                [\<lparr>ev_name = ''receive_message'', ev_payload = payload,
                  ev_target = Room (VStr ''general_chat'')\<rparr>])
             \<and> msg_room_name msg = VStr ''general_chat''
             \<and> map_of payload ''room_name'' = Some (VStr ''general_chat'')
             \<and> msg_room_name (new_chat_row e d sender_id (dict_get data ''content'') VNull)
                 = VStr ''general'')"
proof -
  have c: "dict_get data ''content'' \<noteq> VNull"
    using assms(3) by auto
  have r: "dict_get_default data ''room_name'' (VStr ''general_chat'') = VStr ''general_chat''"
    using assms(1) by (simp add: dict_get_default_def)
  show ?thesis
    using assms(2,3,4) c r
    by (simp add: handle_send_message_def Let_def new_chat_row_def message_payload_def
        lookup_user_def)
qed

theorem send_message_default_room_witness:
  "handle_send_message example_env [(''sender_id'', VInt 1), (''content'', VStr ''hi'')] empty_db =
     (empty_db\<lparr>chat_messages := [chat_row_of 1 5 ''general_chat'']\<rparr>,
      [\<lparr>ev_name = ''receive_message'',
        ev_payload = message_payload example_env (chat_row_of 1 5 ''general_chat'') None,
        ev_target = Room (VStr ''general_chat'')\<rparr>])"
  using send_message_default_room [of "[(''sender_id'', VInt 1), (''content'', VStr ''hi'')]"
      example_env empty_db]
  by (simp add: Let_def dict_get_def example_env_def empty_db_def new_chat_row_def
      chat_row_of_def next_id_def lookup_user_def)

text \<open>
  Claim C6. The claim asks for the avatar fallback: the stored avatar when there is one,
  otherwise the first character of the sender's name, and \<open>?\<close> only when the sender
  cannot be resolved. The source tests whether the sender was resolved, not whether an
  avatar is stored: a resolved sender without an avatar (here \<open>bob\<close>) gets null, in the
  \<open>receive_message\<close> payload and in the history alike, and an unresolved sender gets
  \<open>U\<close>, the first character of the placeholder name, never \<open>?\<close>.
\<close>

theorem chat_avatar_fallback_fails:
  "map_of (ev_payload (hd (snd (handle_send_message example_env
       [(''sender_id'', VInt 1), (''content'', VStr ''hi'')] (empty_db\<lparr>users := [bob]\<rparr>)))))
     ''sender_avatar'' = Some VNull
   \<and> map_of (ev_payload (hd (snd (handle_send_message example_env
       [(''sender_id'', VInt 7), (''content'', VStr ''hi'')] (empty_db\<lparr>users := [bob]\<rparr>)))))
     ''sender_avatar'' = Some (VStr ''U'')
   \<and> map (\<lambda>r. map_of r ''sender_avatar'') (get_chat_messages example_env skewed_db)
       = [Some VNull, Some VNull]
   \<and> sender_avatar_of None = VStr ''U''"
  by (simp add: handle_send_message_def Let_def dict_get_def dict_get_default_def example_env_def
      empty_db_def bob_def lookup_user_def message_payload_def sender_avatar_of_def
      sender_name_of_def opt_str_def upper_char_def get_chat_messages_def skewed_db_def
      ordered_messages_def chat_row_of_def)

text \<open>
  So neither fallback of the claim is what the code computes: the avatar of \<open>bob\<close> is
  not the first character of his name, and the avatar of an unresolved sender is not
  \<open>?\<close>.
\<close>

theorem chat_avatar_fallback_fails_witness:
  "map_of (ev_payload (hd (snd (handle_send_message example_env
       [(''sender_id'', VInt 1), (''content'', VStr ''hi'')] (empty_db\<lparr>users := [bob]\<rparr>)))))
     ''sender_avatar'' \<noteq> Some (VStr [upper_char (hd (u_name bob))])
   \<and> map_of (ev_payload (hd (snd (handle_send_message example_env
       [(''sender_id'', VInt 7), (''content'', VStr ''hi'')] (empty_db\<lparr>users := [bob]\<rparr>)))))
     ''sender_avatar'' \<noteq> Some (VStr ''?'')"
  using chat_avatar_fallback_fails by simp

section \<open>Supporting lemmas\<close>

text \<open>What \<open>committed\<close> and \<open>event_display_name\<close> say for each event name.\<close>

lemma committed_new_announcement:
  "committed \<lparr>ev_name = ''new_announcement'', ev_payload = p, ev_target = t\<rparr> d
     = has_id p ''announcement_id'' (map ann_announcement_id (announcements d))"
  by (simp add: committed_def)

lemma committed_announcement_updated:
  "committed \<lparr>ev_name = ''announcement_updated'', ev_payload = p, ev_target = t\<rparr> d
     = has_id p ''announcement_id'' (map ann_announcement_id (announcements d))"
  by (simp add: committed_def)

lemma committed_announcement_deleted:
  "committed \<lparr>ev_name = ''announcement_deleted'', ev_payload = p, ev_target = t\<rparr> d
     = (\<not> has_id p ''announcement_id'' (map ann_announcement_id (announcements d)))"
  by (simp add: committed_def)

lemma committed_new_repair_request:
  "committed \<lparr>ev_name = ''new_repair_request'', ev_payload = p, ev_target = t\<rparr> d
     = has_id p ''request_id'' (map rr_request_id (repair_requests d))"
  by (simp add: committed_def)

lemma committed_repair_status_updated:
  "committed \<lparr>ev_name = ''repair_status_updated'', ev_payload = p, ev_target = t\<rparr> d
     = has_id p ''request_id'' (map rr_request_id (repair_requests d))"
  by (simp add: committed_def)

lemma committed_new_booking_request:
  "committed \<lparr>ev_name = ''new_booking_request'', ev_payload = p, ev_target = t\<rparr> d
     = has_id p ''booking_id'' (map bk_booking_id (booking_requests d))"
  by (simp add: committed_def)

lemma committed_booking_status_updated:
  "committed \<lparr>ev_name = ''booking_status_updated'', ev_payload = p, ev_target = t\<rparr> d
     = has_id p ''booking_id'' (map bk_booking_id (booking_requests d))"
  by (simp add: committed_def)

lemma committed_new_bill_created:
  "committed \<lparr>ev_name = ''new_bill_created'', ev_payload = p, ev_target = t\<rparr> d
     = has_id p ''bill_id'' (map bill_bill_id (bills d))"
  by (simp add: committed_def)

lemma committed_bill_updated:
  "committed \<lparr>ev_name = ''bill_updated'', ev_payload = p, ev_target = t\<rparr> d
     = has_id p ''bill_id'' (map bill_bill_id (bills d))"
  by (simp add: committed_def)

lemma committed_bill_deleted:
  "committed \<lparr>ev_name = ''bill_deleted'', ev_payload = p, ev_target = t\<rparr> d
     = (\<not> has_id p ''bill_id'' (map bill_bill_id (bills d)))"
  by (simp add: committed_def)

lemma committed_new_payment_receipt:
  "committed \<lparr>ev_name = ''new_payment_receipt'', ev_payload = p, ev_target = t\<rparr> d
     = has_id p ''payment_id'' (map pay_payment_id (payments d))"
  by (simp add: committed_def)

lemma committed_payment_approved:
  "committed \<lparr>ev_name = ''payment_approved'', ev_payload = p, ev_target = t\<rparr> d
     = has_id p ''payment_id'' (map pay_payment_id (payments d))"
  by (simp add: committed_def)

lemma committed_new_calendar_event:
  "committed \<lparr>ev_name = ''new_calendar_event'', ev_payload = p, ev_target = t\<rparr> d
     = has_id p ''event_id'' (map cal_event_id (calendar_events d))"
  by (simp add: committed_def)

lemma committed_new_visitor_registered:
  "committed \<lparr>ev_name = ''new_visitor_registered'', ev_payload = p, ev_target = t\<rparr> d
     = has_id p ''visitor_id'' (map vis_visitor_id (security_visitors d))"
  by (simp add: committed_def)

lemma committed_new_incident_reported:
  "committed \<lparr>ev_name = ''new_incident_reported'', ev_payload = p, ev_target = t\<rparr> d
     = has_id p ''incident_id'' (map inc_incident_id (security_incidents d))"
  by (simp add: committed_def)

lemma committed_receive_message:
  "committed \<lparr>ev_name = ''receive_message'', ev_payload = p, ev_target = t\<rparr> d
     = has_id p ''message_id'' (map msg_message_id (chat_messages d))"
  by (simp add: committed_def)

lemma display_new_announcement:
  "event_display_name ''new_announcement'' = Some (''author_name'', ''author_id'', ''Unknown Author'')"
  by (simp add: event_display_name_def)

lemma display_announcement_updated:
  "event_display_name ''announcement_updated'' = Some (''author_name'', ''author_id'', ''Unknown Author'')"
  by (simp add: event_display_name_def)

lemma display_announcement_deleted:
  "event_display_name ''announcement_deleted'' = None"
  by (simp add: event_display_name_def)

lemma display_new_repair_request:
  "event_display_name ''new_repair_request'' = Some (''user_name'', ''user_id'', ''Unknown User'')"
  by (simp add: event_display_name_def)

lemma display_repair_status_updated:
  "event_display_name ''repair_status_updated'' = None"
  by (simp add: event_display_name_def)

lemma display_new_booking_request:
  "event_display_name ''new_booking_request'' = Some (''user_name'', ''user_id'', ''Unknown User'')"
  by (simp add: event_display_name_def)

lemma display_booking_status_updated:
  "event_display_name ''booking_status_updated'' = None"
  by (simp add: event_display_name_def)

lemma display_new_bill_created:
  "event_display_name ''new_bill_created'' = None"
  by (simp add: event_display_name_def)

lemma display_bill_updated:
  "event_display_name ''bill_updated'' = None"
  by (simp add: event_display_name_def)

lemma display_bill_deleted:
  "event_display_name ''bill_deleted'' = None"
  by (simp add: event_display_name_def)

lemma display_new_payment_receipt:
  "event_display_name ''new_payment_receipt'' = Some (''user_name'', ''user_id'', ''Unknown User'')"
  by (simp add: event_display_name_def)

lemma display_payment_approved:
  "event_display_name ''payment_approved'' = None"
  by (simp add: event_display_name_def)

lemma display_new_calendar_event:
  "event_display_name ''new_calendar_event'' = None"
  by (simp add: event_display_name_def)

lemma display_new_visitor_registered:
  "event_display_name ''new_visitor_registered'' = Some (''user_name'', ''user_id'', ''Unknown User'')"
  by (simp add: event_display_name_def)

lemma display_new_incident_reported:
  "event_display_name ''new_incident_reported'' = Some (''user_name'', ''user_id'', ''Unknown User'')"
  by (simp add: event_display_name_def)

lemma display_receive_message:
  "event_display_name ''receive_message'' = Some (''sender_name'', ''sender_id'', ''Unknown User'')"
  by (simp add: event_display_name_def)

lemma display_error:
  "event_display_name ''error'' = None"
  by (simp add: event_display_name_def)

lemmas committed_simps =
  committed_new_announcement
  committed_announcement_updated
  committed_announcement_deleted
  committed_new_repair_request
  committed_repair_status_updated
  committed_new_booking_request
  committed_booking_status_updated
  committed_new_bill_created
  committed_bill_updated
  committed_bill_deleted
  committed_new_payment_receipt
  committed_payment_approved
  committed_new_calendar_event
  committed_new_visitor_registered
  committed_new_incident_reported
  committed_receive_message

lemmas display_simps =
  display_new_announcement
  display_announcement_updated
  display_announcement_deleted
  display_new_repair_request
  display_repair_status_updated
  display_new_booking_request
  display_booking_status_updated
  display_new_bill_created
  display_bill_updated
  display_bill_deleted
  display_new_payment_receipt
  display_payment_approved
  display_new_calendar_event
  display_new_visitor_registered
  display_new_incident_reported
  display_receive_message
  display_error

text \<open>Reading the first key of a payload, and keys of rows after a write.\<close>

lemma dict_get_Cons:
  "dict_get ((k', v) # p) k = (if k = k' then v else dict_get p k)"
  by (simp add: dict_get_def)

lemma has_id_snoc: "has_id ((k, VInt i) # p) k (ids @ [i])"
  by (simp add: has_id_def dict_get_def)

lemma find_key: "find (\<lambda>x. key x = i) xs = Some r \<Longrightarrow> key r = i"
  by (auto simp: find_Some_iff)

lemma find_replaced:
  "find (\<lambda>x. key x = i) xs = Some r \<Longrightarrow> key u = i \<Longrightarrow>
   find (\<lambda>x. key x = i) (map (\<lambda>x. if key x = i then u else x) xs) = Some u"
  by (induction xs) (auto split: if_splits)

lemma has_id_replaced:
  assumes "find (\<lambda>x. key x = i) xs = Some r" and "key u = i"
  shows "has_id ((k, VInt i) # p) k (map key (map (\<lambda>x. if key x = i then u else x) xs))"
proof -
  have "u \<in> set (map (\<lambda>x. if key x = i then u else x) xs)"
    using find_replaced [OF assms]
    by (auto simp: find_Some_iff in_set_conv_nth simp del: set_map)
  then have "i \<in> set (map key (map (\<lambda>x. if key x = i then u else x) xs))"
    using assms(2) by (metis image_eqI set_map)
  then show ?thesis by (simp add: has_id_def dict_get_def image_iff)
qed

lemma has_id_removed:
  "\<not> has_id ((k, VInt i) # p) k (map key (filter (\<lambda>x. key x \<noteq> i) xs))"
  by (auto simp: has_id_def dict_get_def)

lemma placeholder_none: "placeholder_ok d p None"
  by (simp add: placeholder_ok_def)

lemma placeholder_display:
  "map_of p fk = Some v \<Longrightarrow> map_of p k = Some (display_name (lookup_user d v) ph) \<Longrightarrow>
   placeholder_ok d p (Some (k, fk, ph))"
  by (simp add: placeholder_ok_def dict_get_def display_name_def)

text \<open>A refused or automatically answered request is quiet.\<close>

lemma routed_contract:
  assumes "quiet_result e c d r \<or> published_result e c d r"
    and "req_method req \<notin> set ms \<Longrightarrow> rest_event c = None"
  shows "quiet_result e c d (routed ms req d r) \<or> published_result e c d (routed ms req d r)"
proof (cases "req_method req \<in> set ms \<or> (req_method req = ''HEAD'' \<and> ''GET'' \<in> set ms)")
  case True
  then show ?thesis using assms(1) by (simp add: routed_def)
next
  case False
  then have "rest_event c = None" using assms(2) by blast
  with False show ?thesis
    by (auto simp: routed_def quiet_result_def)
qed

section \<open>Every view keeps the contract\<close>

lemma placeholder_announcement:
  "placeholder_ok d (announcement_dict e d a)
     (Some (''author_name'', ''author_id'', ''Unknown Author''))"
  by (rule placeholder_display) (simp_all add: announcement_dict_def)

lemma manage_announcements_POST_contract:
  assumes "req_method req = ''POST''"
  shows "quiet_result e (Announcements req) d (manage_announcements_POST e req d)
   \<or> published_result e (Announcements req) d (manage_announcements_POST e req d)"
proof (cases "commit_ok e")
  case False
  then show ?thesis
    by (simp add: manage_announcements_POST_def Let_def quiet_result_def succeeded_def
        split: sum.splits prod.splits)
next
  case True
  have c: "committed \<lparr>ev_name = ''new_announcement'',
              ev_payload = announcement_dict e d' r, ev_target = t\<rparr>
              (d\<lparr>announcements := announcements d @ [r]\<rparr>)" for d' r t
    by (simp add: committed_new_announcement announcement_dict_def has_id_snoc)
  show ?thesis using True assms
    by (simp add: manage_announcements_POST_def Let_def quiet_result_def published_result_def
        succeeded_def message_response_def rest_event_def affected_user_def c
        display_simps placeholder_announcement split: sum.splits prod.splits)
qed

lemma manage_announcements_contract:
  "quiet_result e (Announcements req) d (manage_announcements e req d)
   \<or> published_result e (Announcements req) d (manage_announcements e req d)"
proof (cases "req_method req = ''POST''")
  case True
  then show ?thesis
    using manage_announcements_POST_contract [of req e d] by (simp add: manage_announcements_def)
next
  case False
  then show ?thesis
    by (simp add: manage_announcements_def manage_announcements_GET_def quiet_result_def
        rest_event_def read_display_name_def placeholder_announcement)
qed

lemma handle_single_announcement_contract:
  "quiet_result e (SingleAnnouncement i req) d (handle_single_announcement e i req d)
   \<or> published_result e (SingleAnnouncement i req) d (handle_single_announcement e i req d)"
proof (cases "find (\<lambda>a. ann_announcement_id a = i) (announcements d)")
  case None
  then show ?thesis
    by (simp add: handle_single_announcement_def quiet_result_def not_found_def succeeded_def)
next
  case (Some a)
  then have ai: "ann_announcement_id a = i"
    by (rule find_key)
  show ?thesis
  proof (cases "commit_ok e")
    case False
    with Some show ?thesis
      by (simp add: handle_single_announcement_def Let_def quiet_result_def succeeded_def
          split: sum.splits)
  next
    case True
    have u: "committed \<lparr>ev_name = ''announcement_updated'',
                ev_payload = announcement_dict e d' u, ev_target = t\<rparr>
              (d\<lparr>announcements := map (\<lambda>x. if ann_announcement_id x = i then u else x)
                   (announcements d)\<rparr>)"
      if "ann_announcement_id u = i" for d' u t
      unfolding committed_announcement_updated announcement_dict_def
      using has_id_replaced [OF Some that] that by simp
    have del: "committed \<lparr>ev_name = ''announcement_deleted'',
                ev_payload = [(''announcement_id'', VInt i)], ev_target = t\<rparr>
              (d\<lparr>announcements := filter (\<lambda>x. ann_announcement_id x \<noteq> i) (announcements d)\<rparr>)"
      for t
      unfolding committed_announcement_deleted using has_id_removed by simp
    show ?thesis using Some True ai
      by (simp add: handle_single_announcement_def Let_def quiet_result_def published_result_def
          succeeded_def message_response_def rest_event_def affected_user_def u del
          display_simps placeholder_announcement placeholder_none split: sum.splits)
  qed
qed

lemma placeholder_repair:
  "placeholder_ok d (repair_dict e d r) (Some (''user_name'', ''user_id'', ''Unknown User''))"
  by (rule placeholder_display) (simp_all add: repair_dict_def)

lemma manage_repair_requests_POST_contract:
  assumes "req_method req = ''POST''"
  shows "quiet_result e (RepairRequests req) d (manage_repair_requests_POST e req d)
   \<or> published_result e (RepairRequests req) d (manage_repair_requests_POST e req d)"
proof (cases "commit_ok e")
  case False
  then show ?thesis
    by (simp add: manage_repair_requests_POST_def Let_def quiet_result_def succeeded_def
        split: sum.splits prod.splits)
next
  case True
  with assms show ?thesis
    by (simp add: manage_repair_requests_POST_def Let_def quiet_result_def published_result_def
        succeeded_def message_response_def rest_event_def affected_user_def
        committed_new_repair_request has_id_snoc display_simps placeholder_display
        split: sum.splits prod.splits)
qed

lemma manage_repair_requests_contract:
  "quiet_result e (RepairRequests req) d (manage_repair_requests e req d)
   \<or> published_result e (RepairRequests req) d (manage_repair_requests e req d)"
proof (cases "req_method req = ''POST''")
  case True
  then show ?thesis
    using manage_repair_requests_POST_contract [of req e d]
    by (simp add: manage_repair_requests_def)
next
  case False
  then show ?thesis
    by (simp add: manage_repair_requests_def manage_repair_requests_GET_def quiet_result_def
        rest_event_def read_display_name_def placeholder_repair)
qed

lemma handle_single_repair_request_contract:
  "quiet_result e (SingleRepairRequest i req) d (handle_single_repair_request e i req d)
   \<or> published_result e (SingleRepairRequest i req) d (handle_single_repair_request e i req d)"
proof (cases "find (\<lambda>r. rr_request_id r = i) (repair_requests d)")
  case None
  then show ?thesis
    by (simp add: handle_single_repair_request_def quiet_result_def not_found_def succeeded_def)
next
  case (Some a)
  then have ai: "rr_request_id a = i"
    by (rule find_key)
  show ?thesis
  proof (cases "commit_ok e")
    case False
    with Some show ?thesis
      by (simp add: handle_single_repair_request_def Let_def quiet_result_def succeeded_def)
  next
    case True
    have u: "committed \<lparr>ev_name = ''repair_status_updated'',
                ev_payload = (''request_id'', VInt i) # p, ev_target = t\<rparr>
              (d\<lparr>repair_requests := map (\<lambda>x. if rr_request_id x = i then u else x)
                   (repair_requests d)\<rparr>)"
      if "rr_request_id u = i" for p u t
      unfolding committed_repair_status_updated
      using has_id_replaced [OF Some that] by simp
    have au: "affected_user (SingleRepairRequest i req)
                (d\<lparr>repair_requests := map (\<lambda>x. if rr_request_id x = i then u else x)
                   (repair_requests d)\<rparr>) = rr_user_id u"
      if "rr_request_id u = i" for u
      using find_replaced [OF Some that] by (simp add: affected_user_def)
    show ?thesis using Some True ai
      by (simp add: handle_single_repair_request_def Let_def quiet_result_def
          published_result_def succeeded_def message_response_def rest_event_def u au
          display_simps placeholder_none)
  qed
qed

lemma placeholder_booking:
  "placeholder_ok d (booking_dict e d b) (Some (''user_name'', ''user_id'', ''Unknown User''))"
  by (rule placeholder_display) (simp_all add: booking_dict_def)

lemma manage_booking_requests_POST_contract:
  assumes "req_method req = ''POST''"
  shows "quiet_result e (BookingRequests req) d (manage_booking_requests_POST e req d)
   \<or> published_result e (BookingRequests req) d (manage_booking_requests_POST e req d)"
proof (cases "commit_ok e")
  case False
  then show ?thesis
    by (simp add: manage_booking_requests_POST_def Let_def quiet_result_def succeeded_def
        split: sum.splits prod.splits)
next
  case True
  with assms show ?thesis
    by (simp add: manage_booking_requests_POST_def Let_def quiet_result_def published_result_def
        succeeded_def message_response_def rest_event_def affected_user_def
        committed_new_booking_request has_id_snoc display_simps placeholder_display
        split: sum.splits prod.splits)
qed

lemma manage_booking_requests_contract:
  "quiet_result e (BookingRequests req) d (manage_booking_requests e req d)
   \<or> published_result e (BookingRequests req) d (manage_booking_requests e req d)"
proof (cases "req_method req = ''POST''")
  case True
  then show ?thesis
    using manage_booking_requests_POST_contract [of req e d]
    by (simp add: manage_booking_requests_def)
next
  case False
  then show ?thesis
    by (simp add: manage_booking_requests_def manage_booking_requests_GET_def quiet_result_def
        rest_event_def read_display_name_def placeholder_booking)
qed

lemma handle_single_booking_request_contract:
  "quiet_result e (SingleBookingRequest i req) d (handle_single_booking_request e i req d)
   \<or> published_result e (SingleBookingRequest i req) d (handle_single_booking_request e i req d)"
proof (cases "find (\<lambda>b. bk_booking_id b = i) (booking_requests d)")
  case None
  then show ?thesis
    by (simp add: handle_single_booking_request_def quiet_result_def not_found_def succeeded_def)
next
  case (Some a)
  then have ai: "bk_booking_id a = i"
    by (rule find_key)
  show ?thesis
  proof (cases "commit_ok e")
    case False
    with Some show ?thesis
      by (simp add: handle_single_booking_request_def Let_def quiet_result_def succeeded_def
          split: sum.splits prod.splits)
  next
    case True
    have u: "committed \<lparr>ev_name = ''booking_status_updated'',
                ev_payload = (''booking_id'', VInt i) # p, ev_target = t\<rparr>
              (d\<lparr>booking_requests := map (\<lambda>x. if bk_booking_id x = i then u else x)
                   (booking_requests d)\<rparr>)"
      if "bk_booking_id u = i" for p u t
      unfolding committed_booking_status_updated
      using has_id_replaced [OF Some that] by simp
    have au: "affected_user (SingleBookingRequest i req)
                (d\<lparr>booking_requests := map (\<lambda>x. if bk_booking_id x = i then u else x)
                   (booking_requests d)\<rparr>) = bk_user_id u"
      if "bk_booking_id u = i" for u
      using find_replaced [OF Some that] by (simp add: affected_user_def)
    show ?thesis using Some True ai
      by (simp add: handle_single_booking_request_def Let_def quiet_result_def
          published_result_def succeeded_def message_response_def rest_event_def u au
          display_simps placeholder_none split: sum.splits prod.splits)
  qed
qed

lemma placeholder_bill:
  "placeholder_ok d (bill_dict e d b)
     (Some (''issued_by_user_name'', ''issued_by_user_id'', ''Unknown''))"
  by (rule placeholder_display) (simp_all add: bill_dict_def)

lemma manage_bills_POST_contract:
  assumes "req_method req = ''POST''"
  shows "quiet_result e (Bills req) d (manage_bills_POST e req d)
   \<or> published_result e (Bills req) d (manage_bills_POST e req d)"
proof (cases "commit_ok e")
  case False
  then show ?thesis
    by (simp add: manage_bills_POST_def Let_def quiet_result_def succeeded_def
        split: sum.splits prod.splits)
next
  case True
  with assms show ?thesis
    by (simp add: manage_bills_POST_def Let_def quiet_result_def published_result_def
        succeeded_def message_response_def rest_event_def affected_user_def
        committed_new_bill_created has_id_snoc display_simps placeholder_none
        split: sum.splits prod.splits)
qed

lemma manage_bills_contract:
  "quiet_result e (Bills req) d (manage_bills e req d)
   \<or> published_result e (Bills req) d (manage_bills e req d)"
proof (cases "req_method req = ''POST''")
  case True
  then show ?thesis
    using manage_bills_POST_contract [of req e d] by (simp add: manage_bills_def)
next
  case False
  then show ?thesis
    by (simp add: manage_bills_def manage_bills_GET_def quiet_result_def
        rest_event_def read_display_name_def placeholder_bill)
qed

lemma handle_single_bill_contract:
  "quiet_result e (SingleBill i req) d (handle_single_bill e i req d)
   \<or> published_result e (SingleBill i req) d (handle_single_bill e i req d)"
proof (cases "find (\<lambda>b. bill_bill_id b = i) (bills d)")
  case None
  then show ?thesis
    by (simp add: handle_single_bill_def quiet_result_def not_found_def succeeded_def)
next
  case (Some a)
  then have ai: "bill_bill_id a = i"
    by (rule find_key)
  show ?thesis
  proof (cases "commit_ok e")
    case False
    with Some show ?thesis
      by (simp add: handle_single_bill_def Let_def quiet_result_def succeeded_def
          split: sum.splits)
  next
    case True
    have u: "committed \<lparr>ev_name = ''bill_updated'',
                ev_payload = (''bill_id'', VInt i) # p, ev_target = t\<rparr>
              (d\<lparr>bills := map (\<lambda>x. if bill_bill_id x = i then u else x) (bills d)\<rparr>)"
      if "bill_bill_id u = i" for p u t
      unfolding committed_bill_updated
      using has_id_replaced [OF Some that] by simp
    have del: "committed \<lparr>ev_name = ''bill_deleted'',
                ev_payload = (''bill_id'', VInt i) # p, ev_target = t\<rparr>
              (d\<lparr>bills := filter (\<lambda>x. bill_bill_id x \<noteq> i) (bills d), payments := ps\<rparr>)"
      for p t ps
      unfolding committed_bill_deleted using has_id_removed by simp
    show ?thesis using Some True ai
      by (simp add: handle_single_bill_def Let_def quiet_result_def published_result_def
          succeeded_def message_response_def rest_event_def affected_user_def u del
          display_simps placeholder_none split: sum.splits)
  qed
qed

lemma placeholder_payment:
  "placeholder_ok d (payment_dict e d p) (Some (''user_name'', ''user_id'', ''Unknown User''))"
  by (rule placeholder_display) (simp_all add: payment_dict_def)

lemma manage_payments_POST_contract:
  assumes "req_method req = ''POST''"
  shows "quiet_result e (Payments req) d (manage_payments_POST e req d)
   \<or> published_result e (Payments req) d (manage_payments_POST e req d)"
proof (cases "commit_ok e")
  case False
  then show ?thesis
    by (simp add: manage_payments_POST_def Let_def quiet_result_def succeeded_def
        split: sum.splits prod.splits)
next
  case True
  with assms show ?thesis
    by (simp add: manage_payments_POST_def Let_def quiet_result_def published_result_def
        succeeded_def message_response_def rest_event_def affected_user_def
        committed_new_payment_receipt has_id_snoc display_simps placeholder_display
        split: sum.splits prod.splits)
qed

lemma manage_payments_contract:
  "quiet_result e (Payments req) d (manage_payments e req d)
   \<or> published_result e (Payments req) d (manage_payments e req d)"
proof (cases "req_method req = ''POST''")
  case True
  then show ?thesis
    using manage_payments_POST_contract [of req e d] by (simp add: manage_payments_def)
next
  case False
  then show ?thesis
    by (simp add: manage_payments_def manage_payments_GET_def Let_def quiet_result_def
        rest_event_def read_display_name_def placeholder_payment)
qed

lemma approve_payment_contract:
  assumes "req_method req = ''PUT''"
  shows "quiet_result e (ApprovePayment i req) d (approve_payment e i req d)
   \<or> published_result e (ApprovePayment i req) d (approve_payment e i req d)"
proof (cases "find (\<lambda>p. pay_payment_id p = i) (payments d)")
  case None
  then show ?thesis
    by (simp add: approve_payment_def quiet_result_def not_found_def succeeded_def)
next
  case (Some a)
  then have ai: "pay_payment_id a = i"
    by (rule find_key)
  show ?thesis
  proof (cases "commit_ok e")
    case False
    with Some show ?thesis
      by (simp add: approve_payment_def Let_def quiet_result_def succeeded_def
          message_response_def)
  next
    case True
    have u: "committed \<lparr>ev_name = ''payment_approved'',
                ev_payload = (''payment_id'', VInt i) # p, ev_target = t\<rparr>
              (d\<lparr>payments := map (\<lambda>x. if pay_payment_id x = i then u else x) (payments d),
                 bills := bs\<rparr>)"
      if "pay_payment_id u = i" for p u t bs
      unfolding committed_payment_approved
      using has_id_replaced [OF Some that] by simp
    show ?thesis using Some True ai assms
      by (simp add: approve_payment_def Let_def quiet_result_def published_result_def
          succeeded_def message_response_def rest_event_def affected_user_def u
          display_simps placeholder_none)
  qed
qed

lemma manage_calendar_events_POST_contract:
  assumes "req_method req = ''POST''"
  shows "quiet_result e (CalendarEvents req) d (manage_calendar_events_POST e req d)
   \<or> published_result e (CalendarEvents req) d (manage_calendar_events_POST e req d)"
proof (cases "commit_ok e")
  case False
  then show ?thesis
    by (simp add: manage_calendar_events_POST_def Let_def quiet_result_def succeeded_def
        split: sum.splits prod.splits)
next
  case True
  with assms show ?thesis
    by (simp add: manage_calendar_events_POST_def Let_def quiet_result_def published_result_def
        succeeded_def message_response_def rest_event_def affected_user_def
        committed_new_calendar_event has_id_snoc display_simps placeholder_none
        split: sum.splits prod.splits)
qed

lemma manage_calendar_events_contract:
  "quiet_result e (CalendarEvents req) d (manage_calendar_events e req d)
   \<or> published_result e (CalendarEvents req) d (manage_calendar_events e req d)"
proof (cases "req_method req = ''POST''")
  case True
  then show ?thesis
    using manage_calendar_events_POST_contract [of req e d]
    by (simp add: manage_calendar_events_def)
next
  case False
  then show ?thesis
    by (simp add: manage_calendar_events_def quiet_result_def rest_event_def
        read_display_name_def placeholder_none)
qed

lemma placeholder_document:
  "placeholder_ok d (document_dict e d doc)
     (Some (''uploaded_by_user_name'', ''uploaded_by_user_id'', ''Unknown User''))"
  by (rule placeholder_display) (simp_all add: document_dict_def)

lemma manage_documents_contract:
  "quiet_result e (Documents req) d (manage_documents e req d)"
  by (simp add: manage_documents_def manage_documents_POST_def Let_def quiet_result_def
      rest_event_def read_display_name_def placeholder_document message_response_def
      split: sum.splits prod.splits)

lemma placeholder_visitor:
  "placeholder_ok d (visitor_dict e d v) (Some (''user_name'', ''user_id'', ''Unknown User''))"
  by (rule placeholder_display) (simp_all add: visitor_dict_def)

lemma manage_security_visitors_POST_contract:
  assumes "req_method req = ''POST''"
  shows "quiet_result e (SecurityVisitors req) d (manage_security_visitors_POST e req d)
   \<or> published_result e (SecurityVisitors req) d (manage_security_visitors_POST e req d)"
proof (cases "commit_ok e")
  case False
  then show ?thesis
    by (simp add: manage_security_visitors_POST_def Let_def quiet_result_def succeeded_def
        split: sum.splits prod.splits)
next
  case True
  with assms show ?thesis
    by (simp add: manage_security_visitors_POST_def Let_def quiet_result_def
        published_result_def succeeded_def message_response_def rest_event_def
        affected_user_def committed_new_visitor_registered has_id_snoc display_simps
        placeholder_display split: sum.splits prod.splits)
qed

lemma manage_security_visitors_contract:
  "quiet_result e (SecurityVisitors req) d (manage_security_visitors e req d)
   \<or> published_result e (SecurityVisitors req) d (manage_security_visitors e req d)"
proof (cases "req_method req = ''POST''")
  case True
  then show ?thesis
    using manage_security_visitors_POST_contract [of req e d]
    by (simp add: manage_security_visitors_def)
next
  case False
  then show ?thesis
    by (simp add: manage_security_visitors_def quiet_result_def rest_event_def
        read_display_name_def placeholder_visitor)
qed

lemma placeholder_incident:
  "placeholder_ok d (incident_dict e d i) (Some (''user_name'', ''user_id'', ''Unknown User''))"
  by (rule placeholder_display) (simp_all add: incident_dict_def)

lemma manage_security_incidents_POST_contract:
  assumes "req_method req = ''POST''"
  shows "quiet_result e (SecurityIncidents req) d (manage_security_incidents_POST e req d)
   \<or> published_result e (SecurityIncidents req) d (manage_security_incidents_POST e req d)"
proof (cases "commit_ok e")
  case False
  then show ?thesis
    by (simp add: manage_security_incidents_POST_def Let_def quiet_result_def succeeded_def
        split: sum.splits prod.splits)
next
  case True
  with assms show ?thesis
    by (simp add: manage_security_incidents_POST_def Let_def quiet_result_def
        published_result_def succeeded_def message_response_def rest_event_def
        affected_user_def committed_new_incident_reported has_id_snoc display_simps
        placeholder_display split: sum.splits prod.splits)
qed

lemma manage_security_incidents_contract:
  "quiet_result e (SecurityIncidents req) d (manage_security_incidents e req d)
   \<or> published_result e (SecurityIncidents req) d (manage_security_incidents e req d)"
proof (cases "req_method req = ''POST''")
  case True
  then show ?thesis
    using manage_security_incidents_POST_contract [of req e d]
    by (simp add: manage_security_incidents_def)
next
  case False
  then show ?thesis
    by (simp add: manage_security_incidents_def quiet_result_def rest_event_def
        read_display_name_def placeholder_incident)
qed

lemma manage_voting_results_contract:
  "quiet_result e (VotingResults req) d (manage_voting_results e req d)"
  by (simp add: manage_voting_results_def manage_voting_results_POST_def Let_def
      quiet_result_def rest_event_def read_display_name_def placeholder_none
      message_response_def split: sum.splits prod.splits option.splits)

lemma placeholder_message:
  "msg_sender_id m = v \<Longrightarrow>
   placeholder_ok d (message_payload e m (lookup_user d v))
     (Some (''sender_name'', ''sender_id'', ''Unknown User''))"
  by (simp add: placeholder_ok_def message_payload_def dict_get_def sender_name_of_def)

lemma committed_message:
  "committed \<lparr>ev_name = ''receive_message'', ev_payload = message_payload e m su,
      ev_target = t\<rparr> (d\<lparr>chat_messages := chat_messages d @ [m]\<rparr>)"
  by (simp add: committed_receive_message message_payload_def has_id_snoc)

lemma chat_messages_contract:
  "quiet_result e (ChatMessages req) d (Response 200 (JArr (get_chat_messages e d)), d, [])"
  by (simp add: quiet_result_def rest_event_def read_display_name_def get_chat_messages_def
      placeholder_message)

text \<open>Every modelled HTTP request ends quiet or published.\<close>

lemma dispatch_contract:
  assumes "\<And>data. c \<noteq> SendMessage data"
  shows "quiet_result e c d (dispatch e c d) \<or> published_result e c d (dispatch e c d)"
proof (cases c)
  case (Announcements req)
  then show ?thesis
    using routed_contract [OF manage_announcements_contract, of req "[''GET'', ''POST'']"]
    by (simp add: rest_event_def)
next
  case (SingleAnnouncement i req)
  then show ?thesis
    using routed_contract [OF handle_single_announcement_contract, of req "[''PUT'', ''DELETE'']"]
    by (simp add: rest_event_def)
next
  case (RepairRequests req)
  then show ?thesis
    using routed_contract [OF manage_repair_requests_contract, of req "[''GET'', ''POST'']"]
    by (simp add: rest_event_def)
next
  case (SingleRepairRequest i req)
  then show ?thesis
    using routed_contract [OF handle_single_repair_request_contract, of req "[''PUT'', ''DELETE'']"]
    by (simp add: rest_event_def)
next
  case (BookingRequests req)
  then show ?thesis
    using routed_contract [OF manage_booking_requests_contract, of req "[''GET'', ''POST'']"]
    by (simp add: rest_event_def)
next
  case (SingleBookingRequest i req)
  then show ?thesis
    using routed_contract [OF handle_single_booking_request_contract, of req "[''PUT'', ''DELETE'']"]
    by (simp add: rest_event_def)
next
  case (Bills req)
  then show ?thesis
    using routed_contract [OF manage_bills_contract, of req "[''GET'', ''POST'']"]
    by (simp add: rest_event_def)
next
  case (SingleBill i req)
  then show ?thesis
    using routed_contract [OF handle_single_bill_contract, of req "[''PUT'', ''DELETE'']"]
    by (simp add: rest_event_def)
next
  case (Payments req)
  then show ?thesis
    using routed_contract [OF manage_payments_contract, of req "[''GET'', ''POST'']"]
    by (simp add: rest_event_def)
next
  case (ApprovePayment i req)
  show ?thesis
  proof (cases "req_method req = ''PUT''")
    case True
    then show ?thesis
      using approve_payment_contract [OF True, of e i d] ApprovePayment
      by (simp add: routed_def)
  next
    case False
    then show ?thesis
      using ApprovePayment by (simp add: routed_def quiet_result_def rest_event_def)
  qed
next
  case (CalendarEvents req)
  then show ?thesis
    using routed_contract [OF manage_calendar_events_contract, of req "[''GET'', ''POST'']"]
    by (simp add: rest_event_def)
next
  case (Documents req)
  then show ?thesis
    using routed_contract [OF disjI1 [OF manage_documents_contract], of req "[''GET'', ''POST'']"]
    by (simp add: rest_event_def)
next
  case (SecurityVisitors req)
  then show ?thesis
    using routed_contract [OF manage_security_visitors_contract, of req "[''GET'', ''POST'']"]
    by (simp add: rest_event_def)
next
  case (SecurityIncidents req)
  then show ?thesis
    using routed_contract [OF manage_security_incidents_contract, of req "[''GET'', ''POST'']"]
    by (simp add: rest_event_def)
next
  case (VotingResults req)
  then show ?thesis
    using routed_contract [OF disjI1 [OF manage_voting_results_contract], of req "[''GET'', ''POST'']"]
    by (simp add: rest_event_def)
next
  case (ChatMessages req)
  then show ?thesis
    using routed_contract [OF disjI1 [OF chat_messages_contract], of req "[''GET'']"]
    by (simp add: rest_event_def)
next
  case (SendMessage data)
  with assms [of data] show ?thesis by simp
qed

text \<open>The three ways \<open>handle_send_message\<close> can end.\<close>

lemma send_message_cases:
  "(handle_send_message e data d = (d, [error_event ''Missing sender_id or content'']))
   \<or> (\<not> commit_ok e \<and> handle_send_message e data d = (d, [error_event ''Failed to send message'']))
   \<or> (commit_ok e \<and>
       (\<exists>ev. handle_send_message e data d
               = (d\<lparr>chat_messages := chat_messages d
                     @ [new_chat_row e d (dict_get data ''sender_id'') (dict_get data ''content'')
                          (dict_get_default data ''room_name'' (VStr ''general_chat''))]\<rparr>, [ev])
            \<and> ev_name ev = ''receive_message''
            \<and> ev_target ev = Room (dict_get_default data ''room_name'' (VStr ''general_chat''))
            \<and> committed ev (fst (handle_send_message e data d))
            \<and> placeholder_ok (fst (handle_send_message e data d)) (ev_payload ev)
                 (event_display_name ''receive_message'')))"
proof (cases "\<not> truthy (dict_get data ''sender_id'') \<or> \<not> truthy (dict_get data ''content'')")
  case True
  then show ?thesis by (auto simp: handle_send_message_def Let_def)
next
  case False
  then have nn: "dict_get data ''content'' \<noteq> VNull" by auto
  show ?thesis
  proof (cases "commit_ok e")
    case False
    with \<open>\<not> (\<not> truthy (dict_get data ''sender_id'') \<or> \<not> truthy (dict_get data ''content''))\<close>
    show ?thesis by (simp add: handle_send_message_def Let_def)
  next
    case True
    have "msg_sender_id (new_chat_row e d (dict_get data ''sender_id'') c r)
            = dict_get data ''sender_id''" for c r
      by (simp add: new_chat_row_def)
    with True False nn show ?thesis
      by (simp add: handle_send_message_def Let_def display_simps committed_message
          placeholder_message)
  qed
qed

section \<open>Events and commits\<close>

text \<open>
  Claim C2. Whatever the request and the tables, an event for a room or for every
  connection is emitted only once the storage has accepted the commit, and the row it is
  about is then in the committed tables. When the commit is refused the tables are
  unchanged, an HTTP handler emits nothing at all, and the chat handler emits only its
  local \<open>error\<close> event to the originating connection.
\<close>

theorem events_only_after_commit:
  assumes "dispatch e c d = (out, d', evs)"
  shows "(\<not> commit_ok e \<longrightarrow>
            d' = d \<and> (\<forall>ev \<in> set evs. ev_name ev = ''error'' \<and> ev_target ev = Originator)
            \<and> ((\<forall>data. c \<noteq> SendMessage data) \<longrightarrow> evs = []))
       \<and> (\<forall>ev \<in> set evs. ev_target ev \<noteq> Originator \<longrightarrow> commit_ok e \<and> committed ev d')"
proof (cases "\<exists>data. c = SendMessage data")
  case True
  then obtain data where c: "c = SendMessage data" by blast
  with assms have h: "handle_send_message e data d = (d', evs)"
    by (simp split: prod.splits)
  show ?thesis
    using send_message_cases [of e data d] h c
    by (auto simp: error_event_def)
next
  case False
  then have "quiet_result e c d (dispatch e c d) \<or> published_result e c d (dispatch e c d)"
    by (intro dispatch_contract) blast
  with assms False show ?thesis
    by (auto simp: quiet_result_def published_result_def)
qed

theorem events_only_after_commit_witness:
  "dispatch (example_env\<lparr>commit_ok := False\<rparr>) (RepairRequests repair_post) empty_db
     = (Raised StorageError, empty_db, [])
   \<and> snd (dispatch example_env (RepairRequests repair_post) empty_db)
      = (empty_db\<lparr>repair_requests := [tap_repair]\<rparr>,
         [\<lparr>ev_name = ''new_repair_request'',
           ev_payload = [(''request_id'', VInt 1), (''user_id'', VInt 7),
                         (''user_name'', VStr ''Unknown User''), (''title'', VStr ''tap''),
                         (''status'', VStr ''pending''), (''submitted_date'', VStr ''5'')],
           ev_target = Room (VStr ''admins'')\<rparr>])
   \<and> commit_ok example_env
   \<and> committed \<lparr>ev_name = ''new_repair_request'',
           ev_payload = [(''request_id'', VInt 1), (''user_id'', VInt 7),
                         (''user_name'', VStr ''Unknown User''), (''title'', VStr ''tap''),
                         (''status'', VStr ''pending''), (''submitted_date'', VStr ''5'')],
           ev_target = Room (VStr ''admins'')\<rparr> (empty_db\<lparr>repair_requests := [tap_repair]\<rparr>)"
proof -
  have ok: "dispatch example_env (RepairRequests repair_post) empty_db =
     (message_response 201 ''Repair request submitted successfully'' [(''request_id'', VInt 1)],
      empty_db\<lparr>repair_requests := [tap_repair]\<rparr>,
      [\<lparr>ev_name = ''new_repair_request'',
        ev_payload = [(''request_id'', VInt 1), (''user_id'', VInt 7),
                      (''user_name'', VStr ''Unknown User''), (''title'', VStr ''tap''),
                      (''status'', VStr ''pending''), (''submitted_date'', VStr ''5'')],
        ev_target = Room (VStr ''admins'')\<rparr>])"
    by (simp add: routed_def repair_post_def manage_repair_requests_def
        manage_repair_requests_POST_def getitem_def dict_get_def Let_def example_env_def
        empty_db_def next_id_def lookup_user_def display_name_def tap_repair_def str_int_def
        str_nat.simps digit_def)
  have bad: "dispatch (example_env\<lparr>commit_ok := False\<rparr>) (RepairRequests repair_post) empty_db =
     (Raised StorageError, empty_db, [])"
    by (simp add: routed_def repair_post_def manage_repair_requests_def
        manage_repair_requests_POST_def getitem_def dict_get_def Let_def example_env_def)
  show ?thesis
    using events_only_after_commit [OF ok] events_only_after_commit [OF bad] ok bad
    by simp
qed

section \<open>Delivery targets\<close>

text \<open>
  Claim C5. Every successful mutation that has an outbound event publishes exactly one
  event, the one the specification names for it, and its target is the one of the
  specification's table: the room \<open>admins\<close> for a new repair request, booking request,
  payment receipt, visitor or incident; the room \<open>user_{id}\<close> of the request's owner
  for an updated repair or booking status; every connection for the announcement, bill,
  payment approval and calendar events.
\<close>

theorem event_published_once_to_target:
  assumes "dispatch e c d = (out, d', evs)"
    and "succeeded out"
    and "rest_event c = Some (n, tgt)"
  shows "\<exists>p. evs = [\<lparr>ev_name = n, ev_payload = p,
                     ev_target = expected_target tgt (affected_user c d')\<rparr>]"
proof -
  have nc: "c \<noteq> SendMessage data" for data
    using assms(3) by (auto simp: rest_event_def)
  then have "quiet_result e c d (dispatch e c d) \<or> published_result e c d (dispatch e c d)"
    by (rule dispatch_contract)
  then have "published_result e c d (out, d', evs)"
    using assms by (auto simp: quiet_result_def)
  then obtain ev where ev: "evs = [ev]" "ev_name ev = n"
      "ev_target ev = expected_target tgt (affected_user c d')"
    using assms(3) by (auto simp: published_result_def)
  then have "evs = [\<lparr>ev_name = n, ev_payload = ev_payload ev,
                     ev_target = expected_target tgt (affected_user c d')\<rparr>]"
    by simp
  then show ?thesis ..
qed

theorem event_published_once_to_target_witness:
  "rest_event (SingleRepairRequest 1 repair_put) = Some (''repair_status_updated'', ToUserRoom)
   \<and> succeeded (message_response 200 ''Repair request updated successfully'' [])
   \<and> dispatch example_env (SingleRepairRequest 1 repair_put) repair_db =
       (message_response 200 ''Repair request updated successfully'' [],
        empty_db\<lparr>repair_requests := [tap_repair\<lparr>rr_status := VStr ''done''\<rparr>]\<rparr>,
        [\<lparr>ev_name = ''repair_status_updated'',
          ev_payload = [(''request_id'', VInt 1), (''user_id'', VInt 7),
                        (''status'', VStr ''done''), (''title'', VStr ''tap'')],
          ev_target = Room (VStr ''user_7'')\<rparr>])
   \<and> expected_target ToUserRoom
        (affected_user (SingleRepairRequest 1 repair_put)
           (empty_db\<lparr>repair_requests := [tap_repair\<lparr>rr_status := VStr ''done''\<rparr>]\<rparr>))
       = Room (VStr ''user_7'')"
proof -
  have run: "dispatch example_env (SingleRepairRequest 1 repair_put) repair_db =
       (message_response 200 ''Repair request updated successfully'' [],
        empty_db\<lparr>repair_requests := [tap_repair\<lparr>rr_status := VStr ''done''\<rparr>]\<rparr>,
        [\<lparr>ev_name = ''repair_status_updated'',
          ev_payload = [(''request_id'', VInt 1), (''user_id'', VInt 7),
                        (''status'', VStr ''done''), (''title'', VStr ''tap'')],
          ev_target = Room (VStr ''user_7'')\<rparr>])"
    by (simp add: routed_def repair_put_def handle_single_repair_request_def repair_db_def
        tap_repair_def dict_get_default_def Let_def example_env_def empty_db_def str_int_def
        str_nat.simps digit_def)
  have ok: "succeeded (message_response 200 ''Repair request updated successfully'' [])"
    by (simp add: succeeded_def message_response_def)
  have ev: "rest_event (SingleRepairRequest 1 repair_put)
              = Some (''repair_status_updated'', ToUserRoom)"
    by (simp add: rest_event_def repair_put_def)
  show ?thesis
    using event_published_once_to_target [OF run ok ev] run ok ev
    by simp
qed

section \<open>Placeholder names\<close>




section \<open>Duplicate votes\<close>

text \<open>
  Claim C8. A vote posted for a poll and user that already have a row in the voting
  results is answered 409 at once: no row is added, the tables are unchanged, and no
  event is emitted.
\<close>

theorem duplicate_vote_rejected:
  assumes "req_method req = ''POST''"
    and "map_of (req_json req) ''poll_id'' = Some p"
    and "map_of (req_json req) ''user_id'' = Some u"
    and "r \<in> set (voting_results d)" and "vr_poll_id r = p" and "vr_user_id r = u"
  shows "dispatch e (VotingResults req) d =
           (message_response 409 ''You have already voted in this poll.'' [], d, [])"
proof -
  have "find (\<lambda>x. vr_poll_id x = p \<and> vr_user_id x = u) (voting_results d) \<noteq> None"
    using assms(4,5,6) by (auto simp: find_None_iff)
  then obtain x where "find (\<lambda>x. vr_poll_id x = p \<and> vr_user_id x = u) (voting_results d) = Some x"
    by blast
  then show ?thesis
    using assms(1,2,3)
    by (simp add: routed_def manage_voting_results_def manage_voting_results_POST_def
        getitem_def Let_def)
qed

theorem duplicate_vote_rejected_witness:
  "dispatch example_env (VotingResults vote_post) vote_db =
     (message_response 409 ''You have already voted in this poll.'' [], vote_db, [])
   \<and> message_response 409 ''You have already voted in this poll.'' []
       = Response 409 (JObj [(''message'', VStr ''You have already voted in this poll.'')])"
  using duplicate_vote_rejected [of vote_post "VInt 3" "VInt 1" cast_vote vote_db example_env]
  by (simp add: vote_post_def vote_db_def cast_vote_def empty_db_def message_response_def)

end
